theory Spec2Isabelle
  imports Main
begin

section \<open>Data model of the match session engine\<close>

text \<open>
  The server keeps one JavaScript object per live room. The model below follows the
  fields of that object. JavaScript numbers that hold millisecond budgets and
  timestamps are modelled as \<open>int\<close> (the code only adds, subtracts and compares
  them); strings are lists of characters, one \<open>char\<close> standing for one code unit.
  \<open>null\<close> and \<open>undefined\<close> are \<open>None\<close>.
\<close>

type_synonym address = string

datatype color = White | Black

datatype promo = Queen | Rook | Bishop | Knight

text \<open>The tags the coordinator writes into \<open>room.forcedResult\<close>.\<close>

datatype result_tag =
    black_wins_by_timeout | white_wins_by_timeout
  | white_wins_by_forfeit | black_wins_by_forfeit
  | white_wins_by_resign | black_wins_by_resign
  | draw_agreed

text \<open>The messages passed to \<open>wsSend(ws, 'error', {}, message)\<close>.\<close>

datatype error =
    Room_not_found | Invalid_player | Missing_address | Missing_join_payload
  | AI_room_is_private | Room_is_full | Only_white_can_enable_AI
  | Enable_AI_before_first_move | Invalid_AI_level | Cannot_enable_AI_after_join
  | Missing_resume_payload | Only_existing_players_can_resume
  | Game_already_over | Not_your_turn | Illegal_move
  | Both_players_not_joined | Draw_already_offered | No_draw_offer
  | Cannot_accept_own_draw | Rematch_only_after_game_ends
  | Username_must_be_2_24 | Chat_message_must_be_1_280

text \<open>
  What a handler did with a command: it sent an error to the actor, or it ran to its
  end. \<open>Flag_fell\<close> is the early return of \<open>make_move\<close> taken when the clock decay of
  the command itself ended the game (the state is broadcast, the move is not tried).
\<close>

datatype outcome = Rejected error | Flag_fell | Accepted

record clock_state =
  whiteMs :: int
  blackMs :: int
  incrementMs :: int
  running :: bool
  lastTickAt :: "int option"

record chat_member =
  username :: string
  avatar :: string

record chat_message =
  msg_id :: string
  msg_at :: int
  msg_address :: string
  msg_username :: string
  msg_avatar :: string
  msg_text :: string

record chat_state =
  members :: "address \<rightharpoonup> chat_member"
  messages :: "chat_message list"

record ai_state =
  enabled :: bool
  level :: "string option"
  botAddress :: "address option"
  thinking :: bool

record forfeit_state =
  f_color :: "color option"
  deadlineAt :: "int option"
  timer :: "nat option"

record seats =
  white :: "address option"
  black :: "address option"

text \<open>
  A websocket with the three properties the server reads and writes. A room's
  \<open>clients\<close> set is the list of its sockets in insertion order; a socket is in the
  client set of at most one room, so the list holds the sockets' current values and
  membership goes by \<open>ws_id\<close>.
\<close>

record ws =
  ws_id :: nat
  roomId :: "string option"
  playerAddress :: "address option"
  readyState :: nat

text \<open>
  The room object. \<open>scheduled\<close> and \<open>timerSeq\<close> are not fields of the JavaScript
  object: \<open>scheduled\<close> is the part of the runtime's timer table whose callbacks were
  created by \<open>setTimeout\<close> in \<open>maybeStartForfeitTimer\<close> for this room object (handle
  and the \<open>disconnectedColor\<close> captured by the closure), and \<open>timerSeq\<close> numbers the
  handles. \<open>clearTimeout\<close> and the firing of a timer remove entries from it.
\<close>

record 'p room =
  rid :: string
  chess :: 'p
  players :: seats
  clients :: "ws list"
  forcedResult :: "result_tag option"
  drawOfferBy :: "color option"
  rematchOffers :: "color set"
  clock :: clock_state
  chat :: chat_state
  ai :: ai_state
  createdAt :: int
  forfeit :: forfeit_state
  scheduled :: "(nat \<times> color) list"
  timerSeq :: nat

text \<open>
  The chess rules engine (the \<open>Chess\<close> class of chess.js) is an external collaborator
  and a parameter of the model: \<open>'p\<close> is its board state. \<open>chess_move\<close> returns \<open>None\<close>
  where \<open>chess.move\<close> throws; \<open>chess_load\<close> returns \<open>None\<close> where \<open>new Chess(fen)\<close>
  throws.
\<close>

record 'p engine =
  chess_new :: 'p
  chess_load :: "string \<Rightarrow> 'p option"
  chess_fen :: "'p \<Rightarrow> string"
  chess_turn :: "'p \<Rightarrow> color"
  chess_isGameOver :: "'p \<Rightarrow> bool"
  chess_move :: "'p \<Rightarrow> string \<Rightarrow> string \<Rightarrow> promo \<Rightarrow> 'p option"
  chess_history_length :: "'p \<Rightarrow> nat"

text \<open>The environment constants read at start-up.\<close>

record config =
  CLOCK_INITIAL_MS :: int
  CLOCK_INCREMENT_MS :: int
  DISCONNECT_FORFEIT_MS :: int

definition MAX_CHAT_MESSAGES :: nat where
  "MAX_CHAT_MESSAGES = 100"

definition AI_LEVELS :: "string set" where
  "AI_LEVELS = {''beginner'', ''intermediate'', ''hard'', ''master''}"

text \<open>JavaScript truthiness of a value that is a string or \<open>null\<close>.\<close>

fun truthy :: "string option \<Rightarrow> bool" where
  "truthy None = False"
| "truthy (Some s) = (s \<noteq> [])"

section \<open>Constructors of the sub-states\<close>

definition createClockState :: "config \<Rightarrow> clock_state" where
  "createClockState cfg =
     \<lparr> whiteMs = CLOCK_INITIAL_MS cfg, blackMs = CLOCK_INITIAL_MS cfg,
       incrementMs = CLOCK_INCREMENT_MS cfg, running = False, lastTickAt = None \<rparr>"

definition createChatState :: chat_state where
  "createChatState = \<lparr> members = Map.empty, messages = [] \<rparr>"

definition createAiState :: ai_state where
  "createAiState = \<lparr> enabled = False, level = None, botAddress = None, thinking = False \<rparr>"

definition noForfeit :: forfeit_state where
  "noForfeit = \<lparr> f_color = None, deadlineAt = None, timer = None \<rparr>"

section \<open>Game status and clock\<close>

definition isFinished :: "'p engine \<Rightarrow> 'p room \<Rightarrow> bool" where
  "isFinished E r = (forcedResult r \<noteq> None \<or> chess_isGameOver E (chess r))"

definition currentTurnColor :: "'p engine \<Rightarrow> 'p room \<Rightarrow> color" where
  "currentTurnColor E r = chess_turn E (chess r)"

fun getOpponentColor :: "color \<Rightarrow> color" where
  "getOpponentColor White = Black"
| "getOpponentColor Black = White"

text \<open>
  \<open>applyClockDecay(room, now)\<close>. \<open>!room.clock.lastTickAt\<close> holds for \<open>null\<close> and for
  the number 0. The two timeout tests are two independent \<open>if\<close> statements, the
  second one overwriting the first.
\<close>

definition applyClockDecay :: "'p engine \<Rightarrow> int \<Rightarrow> 'p room \<Rightarrow> 'p room" where
  "applyClockDecay E now r =
     (if \<not> running (clock r) \<or> isFinished E r then r
      else
        (case lastTickAt (clock r) of
           None \<Rightarrow> r\<lparr> clock := (clock r)\<lparr> lastTickAt := Some now \<rparr> \<rparr>
         | Some l \<Rightarrow>
             if l = 0 then r\<lparr> clock := (clock r)\<lparr> lastTickAt := Some now \<rparr> \<rparr>
             else
               let elapsed = now - l in
               if elapsed \<le> 0 then r
               else
                 let c1 = (if currentTurnColor E r = White
                           then (clock r)\<lparr> whiteMs := max 0 (whiteMs (clock r) - elapsed) \<rparr>
                           else (clock r)\<lparr> blackMs := max 0 (blackMs (clock r) - elapsed) \<rparr>);
                     c2 = c1\<lparr> lastTickAt := Some now \<rparr>;
                     fr1 = (if whiteMs c2 = 0 then Some black_wins_by_timeout
                            else forcedResult r);
                     fr2 = (if blackMs c2 = 0 then Some white_wins_by_timeout else fr1)
                 in if fr2 \<noteq> None
                    then r\<lparr> forcedResult := fr2, drawOfferBy := None, rematchOffers := {},
                            clock := c2\<lparr> running := False \<rparr> \<rparr>
                    else r\<lparr> forcedResult := fr2, clock := c2 \<rparr>))"

text \<open>\<open>startClockIfReady(room)\<close>; \<open>now\<close> is the value of its \<open>Date.now()\<close>.\<close>

definition startClockIfReady :: "'p engine \<Rightarrow> int \<Rightarrow> 'p room \<Rightarrow> 'p room" where
  "startClockIfReady E now r =
     (if isFinished E r
      then r\<lparr> clock := (clock r)\<lparr> running := False, lastTickAt := None \<rparr> \<rparr>
      else if \<not> truthy (white (players r)) \<or> \<not> truthy (black (players r))
      then r\<lparr> clock := (clock r)\<lparr> running := False, lastTickAt := None \<rparr> \<rparr>
      else r\<lparr> clock := (clock r)\<lparr> running := True, lastTickAt := Some now \<rparr> \<rparr>)"

definition resetGameForRematch :: "config \<Rightarrow> 'p engine \<Rightarrow> int \<Rightarrow> 'p room \<Rightarrow> 'p room" where
  "resetGameForRematch cfg E now r =
     (let r1 = r\<lparr> chess := chess_new E, forcedResult := None, drawOfferBy := None,
                  rematchOffers := {} \<rparr>;
          r2 = (if enabled (ai r1) \<and> truthy (botAddress (ai r1))
                then r1\<lparr> players := (players r1)\<lparr> black := botAddress (ai r1) \<rparr> \<rparr>
                else r1);
          r3 = r2\<lparr> clock := createClockState cfg \<rparr>
      in startClockIfReady E now r3)"

section \<open>Strings\<close>

text \<open>
  \<open>String.prototype.trim\<close> on the white space of the ASCII range, \<open>slice(0, n)\<close> as
  \<open>take n\<close>, and \<open>toLowerCase\<close> on the letters A to Z.
\<close>

definition is_space :: "char \<Rightarrow> bool" where
  "is_space c = (c \<in> {CHR '' '', CHR 0x09, CHR 0x0A, CHR 0x0B, CHR 0x0C, CHR 0x0D})"

definition trim :: "string \<Rightarrow> string" where
  "trim s = rev (dropWhile is_space (rev (dropWhile is_space s)))"

definition lower_char :: "char \<Rightarrow> char" where
  "lower_char c =
     (case map_of (zip ''ABCDEFGHIJKLMNOPQRSTUVWXYZ'' ''abcdefghijklmnopqrstuvwxyz'') c of
        None \<Rightarrow> c
      | Some d \<Rightarrow> d)"

definition toLowerCase :: "string \<Rightarrow> string" where
  "toLowerCase s = map lower_char s"

definition startsWith :: "string \<Rightarrow> string \<Rightarrow> bool" where
  "startsWith s p = (take (length p) s = p)"

definition isAiAddress :: "address option \<Rightarrow> bool" where
  "isAiAddress a = (case a of None \<Rightarrow> False | Some s \<Rightarrow> startsWith s ''ai:'')"

definition identicon :: "string \<Rightarrow> string" where
  "identicon seed = ''https://api.dicebear.com/9.x/identicon/svg?seed='' @ seed"

section \<open>Chat\<close>

text \<open>
  \<open>normalizeChatMember(member, address)\<close> on a roster entry that is an object or
  absent. (The branch for an entry that is a bare string serves records written by
  other programs; no handler stores such an entry.)
\<close>

definition normalizeChatMember :: "chat_member option \<Rightarrow> address \<Rightarrow> chat_member option" where
  "normalizeChatMember member addr =
     (case member of
        None \<Rightarrow> None
      | Some m \<Rightarrow>
          let u = take 24 (trim (username m)) in
          if u = [] then None
          else
            let a = take 512 (trim (avatar m)) in
            Some \<lparr> username = u,
                   avatar = (if a = [] then identicon (if addr = [] then u else addr) else a) \<rparr>)"

text \<open>
  \<open>normalizeChatState(chat)\<close>. \<open>ids k\<close> is the identifier \<open>randomUUID().slice(0, 8)\<close>
  would give to the message at position \<open>k\<close>, and \<open>now\<close> the value of \<open>Date.now()\<close>.
\<close>

definition normalizeChatMessage :: "string \<Rightarrow> int \<Rightarrow> chat_message \<Rightarrow> chat_message" where
  "normalizeChatMessage fresh now m =
     \<lparr> msg_id = (if msg_id m = [] then fresh else msg_id m),
       msg_at = (if msg_at m = 0 then now else msg_at m),
       msg_address = toLowerCase (msg_address m),
       msg_username = (let u = take 24 (trim (msg_username m)) in if u = [] then ''Player'' else u),
       msg_avatar = take 512 (trim (msg_avatar m)),
       msg_text = take 280 (trim (msg_text m)) \<rparr>"

definition normalizeChatState :: "(nat \<Rightarrow> string) \<Rightarrow> int \<Rightarrow> chat_state option \<Rightarrow> chat_state" where
  "normalizeChatState ids now ch =
     (let base = (case ch of None \<Rightarrow> createChatState | Some c \<Rightarrow> c) in
      \<lparr> members = (\<lambda>a. case members base a of
                            None \<Rightarrow> None
                          | Some m \<Rightarrow> normalizeChatMember (Some m) a),
        messages = filter (\<lambda>m. msg_text m \<noteq> [])
                     (map (\<lambda>(k, m). normalizeChatMessage (ids k) now m)
                          (enumerate 0 (messages base))) \<rparr>)"

text \<open>\<open>pushChatMessage\<close>: append, then drop from the front what exceeds the cap.\<close>

definition pushChatMessage ::
  "string \<Rightarrow> int \<Rightarrow> address \<Rightarrow> string \<Rightarrow> string \<Rightarrow> string \<Rightarrow> 'p room \<Rightarrow> 'p room" where
  "pushChatMessage fresh now addr uname av txt r =
     (let ms = messages (chat r) @
               [\<lparr> msg_id = fresh, msg_at = now, msg_address = addr, msg_username = uname,
                   msg_avatar = av, msg_text = txt \<rparr>];
          ms' = (if length ms > MAX_CHAT_MESSAGES
                 then drop (length ms - MAX_CHAT_MESSAGES) ms else ms)
      in r\<lparr> chat := (chat r)\<lparr> messages := ms' \<rparr> \<rparr>)"

section \<open>Snapshot codec\<close>

text \<open>
  The record handed to the store. \<open>fromSnapshot\<close> guards most fields with
  \<open>|| default\<close>, so they are optional here.
\<close>

record snapshot =
  s_id :: string
  s_fen :: string
  s_players :: seats
  s_forcedResult :: "result_tag option"
  s_drawOfferBy :: "color option"
  s_rematchOffers :: "color list option"
  s_clock :: "clock_state option"
  s_chat :: "chat_state option"
  s_ai :: "ai_state option"
  s_createdAt :: "int option"
  s_updatedAt :: int

text \<open>
  \<open>Array.from(room.rematchOffers)\<close>: the colours of the set as an array (the model of
  the set does not keep the insertion order; \<open>fromSnapshot\<close> turns the array back
  into a set).
\<close>

definition offers_array :: "color set \<Rightarrow> color list" where
  "offers_array S = filter (\<lambda>c. c \<in> S) [White, Black]"

definition toSnapshot :: "'p engine \<Rightarrow> int \<Rightarrow> 'p room \<Rightarrow> snapshot" where
  "toSnapshot E now r =
     \<lparr> s_id = rid r, s_fen = chess_fen E (chess r), s_players = players r,
       s_forcedResult = forcedResult r, s_drawOfferBy = drawOfferBy r,
       s_rematchOffers = Some (offers_array (rematchOffers r)),
       s_clock = Some (clock r), s_chat = Some (chat r), s_ai = Some (ai r),
       s_createdAt = Some (createdAt r), s_updatedAt = now \<rparr>"

text \<open>
  \<open>fromSnapshot(snapshot)\<close>; \<open>None\<close> where \<open>new Chess(snapshot.fen)\<close> throws. The new
  room object has no sockets and no timer closes over it.
\<close>

definition fromSnapshot ::
  "config \<Rightarrow> 'p engine \<Rightarrow> (nat \<Rightarrow> string) \<Rightarrow> int \<Rightarrow> snapshot \<Rightarrow> 'p room option" where
  "fromSnapshot cfg E ids now s =
     (case chess_load E (s_fen s) of
        None \<Rightarrow> None
      | Some p \<Rightarrow>
          Some \<lparr> rid = s_id s, chess = p, players = s_players s, clients = [],
                 forcedResult = s_forcedResult s, drawOfferBy = s_drawOfferBy s,
                 rematchOffers = (case s_rematchOffers s of None \<Rightarrow> {} | Some xs \<Rightarrow> set xs),
                 clock = (case s_clock s of None \<Rightarrow> createClockState cfg | Some c \<Rightarrow> c),
                 chat = normalizeChatState ids now (s_chat s),
                 ai = (case s_ai s of None \<Rightarrow> createAiState | Some a \<Rightarrow> a),
                 createdAt = (case s_createdAt s of None \<Rightarrow> now
                              | Some t \<Rightarrow> if t = 0 then now else t),
                 forfeit = noForfeit, scheduled = [], timerSeq = 0 \<rparr>)"

section \<open>Seats and connections\<close>

fun seat :: "seats \<Rightarrow> color \<Rightarrow> address option" where
  "seat ps White = white ps"
| "seat ps Black = black ps"

definition getPlayerColor :: "'p room \<Rightarrow> address option \<Rightarrow> color option" where
  "getPlayerColor r a =
     (if \<not> truthy a then None
      else if white (players r) = a then Some White
      else if black (players r) = a then Some Black
      else None)"

definition getConnectedCount :: "'p room \<Rightarrow> color \<Rightarrow> nat" where
  "getConnectedCount r col =
     (if \<not> truthy (seat (players r) col) then 0
      else length (filter (\<lambda>c. readyState c = 1 \<and> playerAddress c = seat (players r) col)
                          (clients r)))"

definition isPlayerOnline :: "'p room \<Rightarrow> color \<Rightarrow> bool" where
  "isPlayerOnline r col =
     (if isAiAddress (seat (players r) col) then True else getConnectedCount r col > 0)"

text \<open>
  \<open>broadcastRoom\<close> decays the clock, hands the snapshot to the store and sends the view
  to the sockets; on the room object it is the decay. \<open>now\<close> is its \<open>Date.now()\<close>.
\<close>

definition broadcastRoom :: "'p engine \<Rightarrow> int \<Rightarrow> 'p room \<Rightarrow> 'p room" where
  "broadcastRoom E now r = applyClockDecay E now r"

section \<open>Disconnect forfeit timer\<close>

definition clearTimeout :: "nat \<Rightarrow> (nat \<times> color) list \<Rightarrow> (nat \<times> color) list" where
  "clearTimeout h ts = filter (\<lambda>e. fst e \<noteq> h) ts"

definition clearForfeitTimer :: "'p room \<Rightarrow> 'p room" where
  "clearForfeitTimer r =
     r\<lparr> scheduled := (case timer (forfeit r) of
                         None \<Rightarrow> scheduled r
                       | Some h \<Rightarrow> clearTimeout h (scheduled r)),
        forfeit := noForfeit \<rparr>"

text \<open>The four early returns of \<open>maybeStartForfeitTimer\<close>, as one condition.\<close>

definition forfeitTimerDue :: "'p engine \<Rightarrow> 'p room \<Rightarrow> color \<Rightarrow> bool" where
  "forfeitTimerDue E r col =
     (\<not> isFinished E r
      \<and> truthy (seat (players r) (getOpponentColor col))
      \<and> \<not> isPlayerOnline r col
      \<and> isPlayerOnline r (getOpponentColor col))"

text \<open>
  \<open>maybeStartForfeitTimer(gameStore, room, disconnectedColor)\<close>: \<open>td\<close> is the
  \<open>Date.now()\<close> of the deadline, \<open>tb\<close> the one of the broadcast that follows.
\<close>

definition maybeStartForfeitTimer ::
  "config \<Rightarrow> 'p engine \<Rightarrow> int \<Rightarrow> int \<Rightarrow> 'p room \<Rightarrow> color \<Rightarrow> 'p room" where
  "maybeStartForfeitTimer cfg E td tb r col =
     (if \<not> forfeitTimerDue E r col then r
      else
        let r1 = clearForfeitTimer r;
            h = timerSeq r1;
            r2 = r1\<lparr> forfeit := \<lparr> f_color = Some col,
                                    deadlineAt = Some (td + DISCONNECT_FORFEIT_MS cfg),
                                    timer = Some h \<rparr>,
                     scheduled := scheduled r1 @ [(h, col)],
                     timerSeq := Suc h \<rparr>
        in broadcastRoom E tb r2)"

text \<open>The body of the callback handed to \<open>setTimeout\<close>.\<close>

definition forfeitTimerCallback :: "'p engine \<Rightarrow> int \<Rightarrow> 'p room \<Rightarrow> color \<Rightarrow> 'p room" where
  "forfeitTimerCallback E tb r col =
     (if isFinished E r then broadcastRoom E tb (clearForfeitTimer r)
      else if isPlayerOnline r col then broadcastRoom E tb (clearForfeitTimer r)
      else if \<not> isPlayerOnline r (getOpponentColor col)
      then broadcastRoom E tb (clearForfeitTimer r)
      else
        broadcastRoom E tb (clearForfeitTimer
          (r\<lparr> forcedResult := Some (if getOpponentColor col = White
                                     then white_wins_by_forfeit else black_wins_by_forfeit),
               drawOfferBy := None, rematchOffers := {},
               clock := (clock r)\<lparr> running := False \<rparr> \<rparr>)))"

text \<open>
  The runtime fires the pending timer with handle \<open>h\<close>: the entry leaves the timer
  table and its callback runs. Nothing happens when no such timer is pending.
\<close>

definition timerFires :: "'p engine \<Rightarrow> nat \<Rightarrow> int \<Rightarrow> 'p room \<Rightarrow> 'p room" where
  "timerFires E h tb r =
     (case find (\<lambda>e. fst e = h) (scheduled r) of
        None \<Rightarrow> r
      | Some e \<Rightarrow> forfeitTimerCallback E tb (r\<lparr> scheduled := remove1 e (scheduled r) \<rparr>) (snd e))"

definition maybeClearForfeitOnReconnect :: "'p engine \<Rightarrow> int \<Rightarrow> 'p room \<Rightarrow> color \<Rightarrow> 'p room" where
  "maybeClearForfeitOnReconnect E tb r col =
     (if f_color (forfeit r) = Some col \<and> isPlayerOnline r col
      then broadcastRoom E tb (clearForfeitTimer r)
      else r)"

text \<open>
  \<open>room.clients.add(ws)\<close> after the socket's own properties were assigned: a socket
  that is already in the set stays at its place, with its new property values.
\<close>

definition clients_add :: "ws \<Rightarrow> ws list \<Rightarrow> ws list" where
  "clients_add w cs =
     (if ws_id w \<in> ws_id ` set cs
      then map (\<lambda>c. if ws_id c = ws_id w then w else c) cs
      else cs @ [w])"

definition clients_delete :: "nat \<Rightarrow> ws list \<Rightarrow> ws list" where
  "clients_delete i cs = filter (\<lambda>c. ws_id c \<noteq> i) cs"

text \<open>
  \<open>attachClientToRoom\<close>, as far as it acts on the room it attaches to (the removal of
  the socket from the client set of its previous room is \<open>clients_delete\<close> there).
  \<open>addClient\<close> is its first half: the assignments to the socket and
  \<open>room.clients.add(ws)\<close>.
\<close>

definition addClient :: "'p room \<Rightarrow> ws \<Rightarrow> address \<Rightarrow> 'p room" where
  "addClient r w addr =
     r\<lparr> clients := clients_add (w\<lparr> playerAddress := Some addr, roomId := Some (rid r) \<rparr>)
                                 (clients r) \<rparr>"

definition attachClientToRoom :: "'p engine \<Rightarrow> int \<Rightarrow> 'p room \<Rightarrow> ws \<Rightarrow> address \<Rightarrow> 'p room" where
  "attachClientToRoom E tb r w addr =
     (let r1 = addClient r w addr
      in case getPlayerColor r1 (Some addr) of
           None \<Rightarrow> r1
         | Some col \<Rightarrow> maybeClearForfeitOnReconnect E tb r1 col)"

section \<open>The engine's turn\<close>

text \<open>
  \<open>maybeRunAiTurn\<close> suspends for 400 ms between announcing that the engine thinks and
  playing its move, and other commands run in between, so it is two functions. The
  first returns whether the second is pending. The move chosen by \<open>pickAiMove\<close>
  (\<open>null\<close>, or from, to and an optional promotion) is an argument of the second: it
  depends on \<open>Math.random\<close> and on the rules engine's list of legal moves.
\<close>

definition maybeRunAiTurn_begin :: "'p engine \<Rightarrow> int \<Rightarrow> 'p room \<Rightarrow> bool \<times> 'p room" where
  "maybeRunAiTurn_begin E tb r =
     (if \<not> enabled (ai r) then (False, r)
      else if isFinished E r then (False, r)
      else if currentTurnColor E r \<noteq> Black then (False, r)
      else if thinking (ai r) then (False, r)
      else (True, broadcastRoom E tb (r\<lparr> ai := (ai r)\<lparr> thinking := True \<rparr> \<rparr>)))"

definition stopClock :: "'p room \<Rightarrow> 'p room" where
  "stopClock r = r\<lparr> clock := (clock r)\<lparr> running := False, lastTickAt := None \<rparr> \<rparr>"

definition maybeRunAiTurn_resume ::
  "'p engine \<Rightarrow> (string \<times> string \<times> promo option) option \<Rightarrow> int \<Rightarrow> int \<Rightarrow> int
     \<Rightarrow> 'p room \<Rightarrow> outcome \<times> 'p room" where
  "maybeRunAiTurn_resume E choice t1 t2 t3 r =
     (let r1 = applyClockDecay E t1 r in
      if isFinished E r1
      then (Accepted, (stopClock r1)\<lparr> ai := (ai r1)\<lparr> thinking := False \<rparr> \<rparr>)
      else
       (case choice of
        None \<Rightarrow> (Accepted, (stopClock r1)\<lparr> ai := (ai r1)\<lparr> thinking := False \<rparr> \<rparr>)
      | Some (src, dst, pr) \<Rightarrow>
          (case chess_move E (chess r1) src dst (case pr of None \<Rightarrow> Queen | Some x \<Rightarrow> x) of
             None \<Rightarrow> (Rejected Illegal_move, r1\<lparr> ai := (ai r1)\<lparr> thinking := False \<rparr> \<rparr>)
           | Some p' \<Rightarrow>
               let r2 = clearForfeitTimer
                          (r1\<lparr> chess := p', drawOfferBy := None, rematchOffers := {} \<rparr>);
                   r3 = r2\<lparr> clock := (clock r2)\<lparr> blackMs := blackMs (clock r2)
                                                         + incrementMs (clock r2) \<rparr> \<rparr>;
                   r4 = (if isFinished E r3 then stopClock r3
                         else r3\<lparr> clock := (clock r3)\<lparr> running := True,
                                                        lastTickAt := Some t2 \<rparr> \<rparr>);
                   r5 = r4\<lparr> ai := (ai r4)\<lparr> thinking := False \<rparr> \<rparr>
               in (Accepted, broadcastRoom E t3 r5))))"

section \<open>Command handlers\<close>

text \<open>
  The fields of a command's payload. \<open>p_promotion\<close> stands for any promotion choice a
  client may put into the payload of \<open>make_move\<close>.
\<close>

record payload =
  p_address :: "string option"
  p_from :: string
  p_to :: string
  p_promotion :: "string option"
  p_level :: "string option"
  p_username :: "string option"
  p_avatar :: "string option"
  p_text :: "string option"

text \<open>\<open>x || ''\<close> for a string or absent \<open>x\<close>.\<close>

fun or_empty :: "string option \<Rightarrow> string" where
  "or_empty None = []"
| "or_empty (Some s) = s"

text \<open>
  \<open>resolveRoomAndPlayer\<close> once the room is found: the lower-cased address of the
  payload and the colour it is seated as; \<open>None\<close> is the error
  \<open>Invalid ... player\<close>.
\<close>

definition resolvePlayer :: "'p room \<Rightarrow> payload \<Rightarrow> (address \<times> color) option" where
  "resolvePlayer r pl =
     (let a = map_option toLowerCase (p_address pl) in
      case getPlayerColor r a of
        None \<Rightarrow> None
      | Some col \<Rightarrow> if truthy a then Some (the a, col) else None)"

text \<open>
  The handlers below are the bodies of the branches of the message handler, run on
  the room that \<open>loadRoom\<close> found. Their integer arguments are the values of the calls
  of \<open>Date.now()\<close> on the path, in the order of the calls.
\<close>

definition join_room ::
  "'p engine \<Rightarrow> int \<Rightarrow> int \<Rightarrow> int \<Rightarrow> ws \<Rightarrow> payload \<Rightarrow> 'p room \<Rightarrow> outcome \<times> 'p room" where
  "join_room E t1 t2 t3 w pl r =
     (let a = map_option toLowerCase (p_address pl) in
      if \<not> truthy a then (Rejected Missing_join_payload, r)
      else if enabled (ai r) \<and> white (players r) \<noteq> a then (Rejected AI_room_is_private, r)
      else
        let r1 = (if \<not> truthy (black (players r)) \<and> white (players r) \<noteq> a
                  then startClockIfReady E t1 (r\<lparr> players := (players r)\<lparr> black := a \<rparr> \<rparr>)
                  else r)
        in if white (players r1) \<noteq> a \<and> black (players r1) \<noteq> a
           then (Rejected Room_is_full, r1)
           else (Accepted, broadcastRoom E t3 (attachClientToRoom E t2 r1 w (the a))))"

definition set_ai_level ::
  "'p engine \<Rightarrow> int \<Rightarrow> int \<Rightarrow> payload \<Rightarrow> 'p room \<Rightarrow> outcome \<times> 'p room" where
  "set_ai_level E t1 t2 pl r =
     (case resolvePlayer r pl of
        None \<Rightarrow> (Rejected Invalid_player, r)
      | Some (addr, col) \<Rightarrow>
          if col \<noteq> White then (Rejected Only_white_can_enable_AI, r)
          else if chess_history_length E (chess r) > 0
          then (Rejected Enable_AI_before_first_move, r)
          else
            let lv = toLowerCase (or_empty (p_level pl)) in
            if lv \<notin> AI_LEVELS then (Rejected Invalid_AI_level, r)
            else if truthy (black (players r)) \<and> \<not> isAiAddress (black (players r))
                    \<and> black (players r) \<noteq> Some addr
            then (Rejected Cannot_enable_AI_after_join, r)
            else
              let bot = ''ai:'' @ lv;
                  r1 = r\<lparr> ai := \<lparr> enabled = True, level = Some lv, botAddress = Some bot,
                                   thinking = False \<rparr>,
                          players := (players r)\<lparr> black := Some bot \<rparr> \<rparr>;
                  r2 = startClockIfReady E t1 (clearForfeitTimer r1)
              in (Accepted, broadcastRoom E t2 r2))"

definition resume_room ::
  "'p engine \<Rightarrow> int \<Rightarrow> int \<Rightarrow> ws \<Rightarrow> payload \<Rightarrow> 'p room \<Rightarrow> outcome \<times> 'p room" where
  "resume_room E t1 t2 w pl r =
     (let a = map_option toLowerCase (p_address pl) in
      if \<not> truthy a then (Rejected Missing_resume_payload, r)
      else if white (players r) \<noteq> a \<and> black (players r) \<noteq> a
      then (Rejected Only_existing_players_can_resume, r)
      else (Accepted, broadcastRoom E t2 (attachClientToRoom E t1 r w (the a))))"

text \<open>
  \<open>make_move\<close> up to the point where it returns or hands over to the engine's turn.
  \<open>chess.move\<close> is called with from and to of the payload and the literal
  \<open>promotion: 'q'\<close>; when it throws, the \<open>catch\<close> sends \<open>Illegal move\<close>.
\<close>

definition make_move ::
  "config \<Rightarrow> 'p engine \<Rightarrow> int \<Rightarrow> int \<Rightarrow> int \<Rightarrow> int \<Rightarrow> payload \<Rightarrow> 'p room
     \<Rightarrow> outcome \<times> 'p room" where
  "make_move cfg E t1 t2 t3 t4 pl r =
     (case resolvePlayer r pl of
        None \<Rightarrow> (Rejected Invalid_player, r)
      | Some (addr, col) \<Rightarrow>
          if isFinished E r then (Rejected Game_already_over, r)
          else if currentTurnColor E r \<noteq> col then (Rejected Not_your_turn, r)
          else
            let r1 = applyClockDecay E t1 r in
            if isFinished E r1 then (Flag_fell, broadcastRoom E t2 r1)
            else
              (case chess_move E (chess r1) (p_from pl) (p_to pl) Queen of
                 None \<Rightarrow> (Rejected Illegal_move, r1)
               | Some p' \<Rightarrow>
                let r2 = clearForfeitTimer
                           (r1\<lparr> chess := p', drawOfferBy := None, rematchOffers := {} \<rparr>);
                    c = clock r2;
                    c' = (if col = White
                          then c\<lparr> whiteMs := whiteMs c + incrementMs c \<rparr>
                          else c\<lparr> blackMs := blackMs c + incrementMs c \<rparr>);
                    r3 = r2\<lparr> clock := c'\<lparr> lastTickAt := Some t2, running := True \<rparr> \<rparr>
                in if \<not> isFinished E r3
                   then
                     (if enabled (ai r3) \<and> currentTurnColor E r3 = Black
                      then (Accepted, snd (maybeRunAiTurn_begin E t3 r3))
                      else if \<not> isPlayerOnline r3 (currentTurnColor E r3)
                      then (Accepted, maybeStartForfeitTimer cfg E t3 t4 r3
                                        (currentTurnColor E r3))
                      else (Accepted, broadcastRoom E t3 r3))
                   else (Accepted,
                         broadcastRoom E t3 (r3\<lparr> clock := (clock r3)\<lparr> running := False \<rparr> \<rparr>))))"

definition resign :: "'p engine \<Rightarrow> int \<Rightarrow> payload \<Rightarrow> 'p room \<Rightarrow> outcome \<times> 'p room" where
  "resign E t1 pl r =
     (case resolvePlayer r pl of
        None \<Rightarrow> (Rejected Invalid_player, r)
      | Some (addr, col) \<Rightarrow>
          if isFinished E r then (Rejected Game_already_over, r)
          else
            let r1 = r\<lparr> forcedResult := Some (if getOpponentColor col = White
                                               then white_wins_by_resign
                                               else black_wins_by_resign),
                        drawOfferBy := None, rematchOffers := {},
                        clock := (clock r)\<lparr> running := False \<rparr> \<rparr>
            in (Accepted, broadcastRoom E t1 (clearForfeitTimer r1)))"

definition offer_draw :: "'p engine \<Rightarrow> int \<Rightarrow> payload \<Rightarrow> 'p room \<Rightarrow> outcome \<times> 'p room" where
  "offer_draw E t1 pl r =
     (case resolvePlayer r pl of
        None \<Rightarrow> (Rejected Invalid_player, r)
      | Some (addr, col) \<Rightarrow>
          if isFinished E r then (Rejected Game_already_over, r)
          else if \<not> truthy (white (players r)) \<or> \<not> truthy (black (players r))
          then (Rejected Both_players_not_joined, r)
          else if drawOfferBy r = Some col then (Rejected Draw_already_offered, r)
          else (Accepted, broadcastRoom E t1 (r\<lparr> drawOfferBy := Some col \<rparr>)))"

definition accept_draw :: "'p engine \<Rightarrow> int \<Rightarrow> payload \<Rightarrow> 'p room \<Rightarrow> outcome \<times> 'p room" where
  "accept_draw E t1 pl r =
     (case resolvePlayer r pl of
        None \<Rightarrow> (Rejected Invalid_player, r)
      | Some (addr, col) \<Rightarrow>
          if isFinished E r then (Rejected Game_already_over, r)
          else if drawOfferBy r = None then (Rejected No_draw_offer, r)
          else if drawOfferBy r = Some col then (Rejected Cannot_accept_own_draw, r)
          else
            let r1 = r\<lparr> forcedResult := Some draw_agreed, drawOfferBy := None,
                        rematchOffers := {}, clock := (clock r)\<lparr> running := False \<rparr> \<rparr>
            in (Accepted, broadcastRoom E t1 (clearForfeitTimer r1)))"

text \<open>\<open>room.rematchOffers.size === 2\<close> is \<open>card ... = 2\<close>.\<close>

definition offer_rematch ::
  "config \<Rightarrow> 'p engine \<Rightarrow> int \<Rightarrow> int \<Rightarrow> payload \<Rightarrow> 'p room \<Rightarrow> outcome \<times> 'p room" where
  "offer_rematch cfg E t1 t2 pl r =
     (case resolvePlayer r pl of
        None \<Rightarrow> (Rejected Invalid_player, r)
      | Some (addr, col) \<Rightarrow>
          if \<not> isFinished E r then (Rejected Rematch_only_after_game_ends, r)
          else
            let r1 = r\<lparr> rematchOffers := insert col (rematchOffers r) \<rparr>;
                r2 = (if card (rematchOffers r1) = 2 then resetGameForRematch cfg E t1 r1
                      else r1)
            in (Accepted, broadcastRoom E t2 r2))"

definition escrow_log :: "payload \<Rightarrow> 'p room \<Rightarrow> outcome \<times> 'p room" where
  "escrow_log pl r =
     (case resolvePlayer r pl of
        None \<Rightarrow> (Rejected Invalid_player, r)
      | Some (addr, col) \<Rightarrow> (Accepted, r))"

definition enter_chat :: "'p engine \<Rightarrow> int \<Rightarrow> payload \<Rightarrow> 'p room \<Rightarrow> outcome \<times> 'p room" where
  "enter_chat E t1 pl r =
     (case resolvePlayer r pl of
        None \<Rightarrow> (Rejected Invalid_player, r)
      | Some (addr, col) \<Rightarrow>
          let u = trim (or_empty (p_username pl));
              a = trim (or_empty (p_avatar pl))
          in if length u < 2 \<or> length u > 24 then (Rejected Username_must_be_2_24, r)
             else
               let m = normalizeChatMember (Some \<lparr> username = u, avatar = a \<rparr>) addr;
                   r1 = r\<lparr> chat := (chat r)\<lparr> members := (members (chat r))(addr := m) \<rparr> \<rparr>
               in (Accepted, broadcastRoom E t1 r1))"

text \<open>
  \<open>send_chat\<close>. \<open>fresh\<close> is the identifier of the new message, \<open>t1\<close> its time stamp.
  The roster entry of a sender without a valid one is written before the text is
  examined.
\<close>

definition fallbackName :: "address \<Rightarrow> string" where
  "fallbackName addr = ''Player-'' @ take 4 (drop 2 addr)"

definition send_chat ::
  "'p engine \<Rightarrow> string \<Rightarrow> int \<Rightarrow> int \<Rightarrow> payload \<Rightarrow> 'p room \<Rightarrow> outcome \<times> 'p room" where
  "send_chat E fresh t1 t2 pl r =
     (case resolvePlayer r pl of
        None \<Rightarrow> (Rejected Invalid_player, r)
      | Some (addr, col) \<Rightarrow>
          let (member, r1) =
                (case normalizeChatMember (members (chat r) addr) addr of
                   Some m \<Rightarrow> (m, r)
                 | None \<Rightarrow>
                     let m1 = normalizeChatMember
                                (Some \<lparr> username = (if truthy (p_username pl)
                                                     then or_empty (p_username pl)
                                                     else fallbackName addr),
                                        avatar = or_empty (p_avatar pl) \<rparr>) addr;
                         m2 = (case m1 of
                                 Some m \<Rightarrow> m
                               | None \<Rightarrow> \<lparr> username = fallbackName addr,
                                            avatar = identicon addr \<rparr>)
                     in (m2, r\<lparr> chat := (chat r)\<lparr> members := (members (chat r))(addr \<mapsto> m2) \<rparr> \<rparr>));
              txt = trim (or_empty (p_text pl))
          in if txt = [] \<or> length txt > 280
             then (Rejected Chat_message_must_be_1_280, r1)
             else (Accepted,
                   broadcastRoom E t2
                     (pushChatMessage fresh t1 addr (username member) (avatar member) txt r1)))"

section \<open>Detaching a socket\<close>

text \<open>
  \<open>removeClient\<close> on the room it found: what happens to the room object, and whether
  the room stays registered, is deleted from registry and store, or is evicted from
  the registry only.
\<close>

datatype disposition = Kept | Deleted | Evicted

definition shouldDeleteEmptyUnstartedRoom :: "'p engine \<Rightarrow> 'p room \<Rightarrow> bool" where
  "shouldDeleteEmptyUnstartedRoom E r =
     (length (clients r) = 0 \<and> \<not> truthy (black (players r))
      \<and> chess_history_length E (chess r) = 0)"

definition removeClient_room ::
  "config \<Rightarrow> 'p engine \<Rightarrow> int \<Rightarrow> int \<Rightarrow> ws \<Rightarrow> 'p room \<Rightarrow> disposition \<times> 'p room" where
  "removeClient_room cfg E t1 t2 w r =
     (let r1 = r\<lparr> clients := clients_delete (ws_id w) (clients r) \<rparr>;
          col = getPlayerColor r1 (playerAddress w)
      in if col \<noteq> None \<and> \<not> isFinished E r1 \<and> \<not> isPlayerOnline r1 (the col)
         then (Kept, maybeStartForfeitTimer cfg E t1 t2 r1 (the col))
         else if shouldDeleteEmptyUnstartedRoom E r1
         then (Deleted, clearForfeitTimer r1)
         else
           let r2 = broadcastRoom E t1 r1
           in (if length (clients r2) = 0 then Evicted else Kept, r2))"

text \<open>The periodic ticker's visit of one room.\<close>

definition ticker :: "'p engine \<Rightarrow> int \<Rightarrow> 'p room \<Rightarrow> 'p room" where
  "ticker E now r =
     (if length (clients r) = 0 \<or> isFinished E r \<or> \<not> running (clock r) then r
      else broadcastRoom E now r)"

text \<open>The room object that \<open>create_room\<close> builds for a creator address.\<close>

definition newRoom :: "config \<Rightarrow> 'p engine \<Rightarrow> string \<Rightarrow> int \<Rightarrow> address \<Rightarrow> 'p room" where
  "newRoom cfg E i now a =
     \<lparr> rid = i, chess = chess_new E, players = \<lparr> white = Some a, black = None \<rparr>,
       clients = [], forcedResult = None, drawOfferBy = None, rematchOffers = {},
       clock = createClockState cfg, chat = createChatState, ai = createAiState,
       createdAt = now, forfeit = noForfeit, scheduled = [], timerSeq = 0 \<rparr>"

section \<open>Events on a live room\<close>

text \<open>
  Everything that can happen to one live room object: the commands, the second half
  of the engine's turn, the detaching of a socket, a socket being moved to another
  room by \<open>attachClientToRoom\<close> there, a socket changing its \<open>readyState\<close>, a forfeit
  timer firing, the ticker, and the eviction of the room followed by its
  reconstruction from the snapshot. Each event runs to its end before the next one
  starts: the store of the model answers at once, and the one suspension that lets
  other events in, the delay of the engine's turn, is the boundary between two
  events. The second half of the engine's turn and the reconstruction are possible in
  every state here, which is more than the server allows.
\<close>

datatype event =
    Join_room int int int ws payload
  | Resume_room int int ws payload
  | Set_ai_level int int payload
  | Make_move int int int int payload
  | Ai_resume "(string \<times> string \<times> promo option) option" int int int
  | Resign int payload
  | Offer_draw int payload
  | Accept_draw int payload
  | Offer_rematch int int payload
  | Escrow_log payload
  | Enter_chat int payload
  | Send_chat string int int payload
  | Remove_client int int ws
  | Socket_moves_away nat
  | Socket_state nat nat
  | Timer_fires nat int
  | Tick int
  | Reload "nat \<Rightarrow> string" int int

definition setReadyState :: "nat \<Rightarrow> nat \<Rightarrow> 'p room \<Rightarrow> 'p room" where
  "setReadyState i n r =
     r\<lparr> clients := map (\<lambda>c. if ws_id c = i then c\<lparr> readyState := n \<rparr> else c) (clients r) \<rparr>"

definition reload ::
  "config \<Rightarrow> 'p engine \<Rightarrow> (nat \<Rightarrow> string) \<Rightarrow> int \<Rightarrow> int \<Rightarrow> 'p room \<Rightarrow> 'p room" where
  "reload cfg E ids t1 t2 r =
     (case fromSnapshot cfg E ids t2 (toSnapshot E t1 r) of None \<Rightarrow> r | Some r' \<Rightarrow> r')"

fun step :: "config \<Rightarrow> 'p engine \<Rightarrow> event \<Rightarrow> 'p room \<Rightarrow> 'p room" where
  "step cfg E (Join_room t1 t2 t3 w pl) r = snd (join_room E t1 t2 t3 w pl r)"
| "step cfg E (Resume_room t1 t2 w pl) r = snd (resume_room E t1 t2 w pl r)"
| "step cfg E (Set_ai_level t1 t2 pl) r = snd (set_ai_level E t1 t2 pl r)"
| "step cfg E (Make_move t1 t2 t3 t4 pl) r = snd (make_move cfg E t1 t2 t3 t4 pl r)"
| "step cfg E (Ai_resume choice t1 t2 t3) r = snd (maybeRunAiTurn_resume E choice t1 t2 t3 r)"
| "step cfg E (Resign t1 pl) r = snd (resign E t1 pl r)"
| "step cfg E (Offer_draw t1 pl) r = snd (offer_draw E t1 pl r)"
| "step cfg E (Accept_draw t1 pl) r = snd (accept_draw E t1 pl r)"
| "step cfg E (Offer_rematch t1 t2 pl) r = snd (offer_rematch cfg E t1 t2 pl r)"
| "step cfg E (Escrow_log pl) r = snd (escrow_log pl r)"
| "step cfg E (Enter_chat t1 pl) r = snd (enter_chat E t1 pl r)"
| "step cfg E (Send_chat fresh t1 t2 pl) r = snd (send_chat E fresh t1 t2 pl r)"
| "step cfg E (Remove_client t1 t2 w) r = snd (removeClient_room cfg E t1 t2 w r)"
| "step cfg E (Socket_moves_away i) r = r\<lparr> clients := clients_delete i (clients r) \<rparr>"
| "step cfg E (Socket_state i n) r = setReadyState i n r"
| "step cfg E (Timer_fires h tb) r = timerFires E h tb r"
| "step cfg E (Tick now) r = ticker E now r"
| "step cfg E (Reload ids t1 t2) r = reload cfg E ids t1 t2 r"

text \<open>The room after a sequence of events.\<close>

fun run :: "config \<Rightarrow> 'p engine \<Rightarrow> 'p room \<Rightarrow> event list \<Rightarrow> 'p room" where
  "run cfg E r [] = r"
| "run cfg E r (ev # evs) = run cfg E (step cfg E ev r) evs"

section \<open>Registry and store\<close>

text \<open>
  \<open>activeRooms\<close> and the game store (\<open>InMemoryGameStore\<close>: a map from room id to
  snapshot; its calls do not fail). A room object is known by the key under which
  the registry holds it.
\<close>

record 'p world =
  activeRooms :: "string \<rightharpoonup> 'p room"
  gameStore :: "string \<rightharpoonup> snapshot"

definition saveRoom :: "'p engine \<Rightarrow> int \<Rightarrow> 'p room \<Rightarrow> 'p world \<Rightarrow> 'p world" where
  "saveRoom E now r W =
     W\<lparr> gameStore := (gameStore W)(s_id (toSnapshot E now r) \<mapsto> toSnapshot E now r) \<rparr>"

definition loadRoom ::
  "config \<Rightarrow> 'p engine \<Rightarrow> (nat \<Rightarrow> string) \<Rightarrow> int \<Rightarrow> string \<Rightarrow> 'p world
     \<Rightarrow> (string \<times> 'p world) option" where
  "loadRoom cfg E ids now i W =
     (case activeRooms W i of
        Some r \<Rightarrow> Some (i, W)
      | None \<Rightarrow>
          (case gameStore W i of
             None \<Rightarrow> None
           | Some s \<Rightarrow>
               (case fromSnapshot cfg E ids now s of
                  None \<Rightarrow> None
                | Some r \<Rightarrow> Some (rid r, W\<lparr> activeRooms := (activeRooms W)(rid r \<mapsto> r) \<rparr>))))"

text \<open>
  \<open>removeClient(gameStore, ws)\<close>. \<open>t0\<close> is the time of a reconstruction from the
  store, \<open>t1\<close> and \<open>t2\<close> are those of \<open>removeClient_room\<close>, \<open>ts\<close> is the \<open>updatedAt\<close> of
  a snapshot written by a broadcast. The store is written where a broadcast
  happens: on the forfeit path only when the timer is started.
\<close>

definition removeClient ::
  "config \<Rightarrow> 'p engine \<Rightarrow> (nat \<Rightarrow> string) \<Rightarrow> int \<Rightarrow> int \<Rightarrow> int \<Rightarrow> int \<Rightarrow> ws \<Rightarrow> 'p world
     \<Rightarrow> 'p world" where
  "removeClient cfg E ids t0 t1 t2 ts w W =
     (if \<not> truthy (roomId w) then W
      else case loadRoom cfg E ids t0 (the (roomId w)) W of
        None \<Rightarrow> W
      | Some (k, W1) \<Rightarrow>
          let r = the (activeRooms W1 k);
              r1 = r\<lparr> clients := clients_delete (ws_id w) (clients r) \<rparr>;
              col = getPlayerColor r1 (playerAddress w);
              (d, r') = removeClient_room cfg E t1 t2 w r;
              W2 = W1\<lparr> activeRooms := (activeRooms W1)(k \<mapsto> r') \<rparr>
          in if col \<noteq> None \<and> \<not> isFinished E r1 \<and> \<not> isPlayerOnline r1 (the col)
             then (if forfeitTimerDue E r1 (the col) then saveRoom E ts r' W2 else W2)
             else (case d of
                     Deleted \<Rightarrow>
                       W2\<lparr> activeRooms := (activeRooms W2)(rid r' := None),
                           gameStore := (gameStore W2)(rid r' := None) \<rparr>
                   | Evicted \<Rightarrow>
                       (saveRoom E ts r' W2)\<lparr> activeRooms := (activeRooms W2)(rid r' := None) \<rparr>
                   | Kept \<Rightarrow> saveRoom E ts r' W2))"

text \<open>
  \<open>create_room\<close> for a socket that is in no room: the registry entry, the first
  snapshot, the attachment of the creator's socket and the broadcast. It returns the
  socket with its new properties as well.
\<close>

definition create_room ::
  "config \<Rightarrow> 'p engine \<Rightarrow> string \<Rightarrow> int \<Rightarrow> int \<Rightarrow> int \<Rightarrow> int \<Rightarrow> int \<Rightarrow> ws \<Rightarrow> payload
     \<Rightarrow> 'p world \<Rightarrow> outcome \<times> ws \<times> 'p world" where
  "create_room cfg E i t0 ts1 t2 t3 ts3 w pl W =
     (let a = map_option toLowerCase (p_address pl) in
      if \<not> truthy a then (Rejected Missing_address, w, W)
      else
        let r0 = newRoom cfg E i t0 (the a);
            W1 = saveRoom E ts1 r0 (W\<lparr> activeRooms := (activeRooms W)(i \<mapsto> r0) \<rparr>);
            r1 = attachClientToRoom E t2 r0 w (the a);
            r2 = broadcastRoom E t3 r1;
            W2 = saveRoom E ts3 r2 (W1\<lparr> activeRooms := (activeRooms W1)(rid r2 \<mapsto> r2) \<rparr>)
        in (Accepted, w\<lparr> playerAddress := a, roomId := Some i \<rparr>, W2))"

section \<open>A small rules engine and sample data\<close>

text \<open>
  A rules engine to run the handlers on: a position is the number of plies played,
  white moves at even positions, a move is legal when source and target differ and
  fewer than four plies were played, and the game is over after four plies. Its FEN
  is one character per ply.
\<close>

definition demo_engine :: "nat engine" where
  "demo_engine =
     \<lparr> chess_new = 0,
       chess_load = (\<lambda>s. Some (length s)),
       chess_fen = (\<lambda>n. replicate n (CHR ''m'')),
       chess_turn = (\<lambda>n. if even n then White else Black),
       chess_isGameOver = (\<lambda>n. 4 \<le> n),
       chess_move = (\<lambda>n src dst pr. if src = dst \<or> 4 \<le> n then None else Some (Suc n)),
       chess_history_length = (\<lambda>n. n) \<rparr>"

definition demo_config :: config where
  "demo_config = \<lparr> CLOCK_INITIAL_MS = 300000, CLOCK_INCREMENT_MS = 2000,
                   DISCONNECT_FORFEIT_MS = 60000 \<rparr>"

definition no_payload :: payload where
  "no_payload = \<lparr> p_address = None, p_from = [], p_to = [], p_promotion = None,
                  p_level = None, p_username = None, p_avatar = None, p_text = None \<rparr>"

definition by_addr :: "string \<Rightarrow> payload" where
  "by_addr a = no_payload\<lparr> p_address := Some a \<rparr>"

definition socket :: "nat \<Rightarrow> ws" where
  "socket i = \<lparr> ws_id = i, roomId = None, playerAddress = None, readyState = 1 \<rparr>"

text \<open>
  A room in play between \<open>0xa\<close> (white, socket 1) and \<open>0xb\<close> (black, socket 2), as
  \<open>create_room\<close> and \<open>join_room\<close> at time 1000 leave it.
\<close>

definition room_in_play :: "nat room" where
  "room_in_play =
     \<lparr> rid = ''r1'', chess = 0, players = \<lparr> white = Some ''0xa'', black = Some ''0xb'' \<rparr>,
       clients = [\<lparr> ws_id = 1, roomId = Some ''r1'', playerAddress = Some ''0xa'',
                    readyState = 1 \<rparr>,
                  \<lparr> ws_id = 2, roomId = Some ''r1'', playerAddress = Some ''0xb'',
                    readyState = 1 \<rparr>],
       forcedResult = None, drawOfferBy = None, rematchOffers = {},
       clock = \<lparr> whiteMs = 300000, blackMs = 300000, incrementMs = 2000, running = True,
                 lastTickAt = Some 1000 \<rparr>,
       chat = createChatState, ai = createAiState, createdAt = 900, forfeit = noForfeit,
       scheduled = [], timerSeq = 0 \<rparr>"

text \<open>A configuration with a negative increment, and one with a zero budget.\<close>

definition negative_increment_config :: config where
  "negative_increment_config = \<lparr> CLOCK_INITIAL_MS = 1000, CLOCK_INCREMENT_MS = - 2000,
                                 DISCONNECT_FORFEIT_MS = 60000 \<rparr>"


definition e2e4 :: "string \<Rightarrow> payload" where
  "e2e4 a = (by_addr a)\<lparr> p_from := ''e2'', p_to := ''e4'' \<rparr>"

text \<open>The same room after white resigned.\<close>

definition room_resigned :: "nat room" where
  "room_resigned =
     room_in_play\<lparr> forcedResult := Some black_wins_by_resign,
                    clock := (clock room_in_play)\<lparr> running := False \<rparr> \<rparr>"



text \<open>The room in play with half a second left on white's clock.\<close>

definition room_low_time :: "nat room" where
  "room_low_time = room_in_play\<lparr> clock := (clock room_in_play)\<lparr> whiteMs := 500 \<rparr> \<rparr>"

definition e2e2 :: "string \<Rightarrow> payload" where
  "e2e2 a = (by_addr a)\<lparr> p_from := ''e2'', p_to := ''e2'' \<rparr>"

text \<open>
  A finished game against the engine in which the black seat has offered a rematch.
\<close>

definition room_ai_finished :: "nat room" where
  "room_ai_finished =
     room_resigned\<lparr> players := \<lparr> white = Some ''0xa'', black = Some ''ai:hard'' \<rparr>,
                     ai := \<lparr> enabled = True, level = Some ''hard'',
                             botAddress = Some ''ai:hard'', thinking = False \<rparr>,
                     rematchOffers := {Black} \<rparr>"




definition fresh_ids :: "nat \<Rightarrow> string" where
  "fresh_ids k = ''fresh''"



text \<open>
  The world after \<open>create_room\<close> by \<open>0xa\<close> on socket 1 in an empty registry with an
  empty store, the socket as that command leaves it, and the same socket once it is
  closed.
\<close>

definition empty_world :: "nat world" where
  "empty_world = \<lparr> activeRooms = Map.empty, gameStore = Map.empty \<rparr>"

definition world_created :: "nat world" where
  "world_created =
     snd (snd (create_room demo_config demo_engine ''r1'' 900 900 900 900 900 (socket 1)
                 (by_addr ''0xa'') empty_world))"

definition creator_socket :: ws where
  "creator_socket =
     fst (snd (create_room demo_config demo_engine ''r1'' 900 900 900 900 900 (socket 1)
                 (by_addr ''0xa'') empty_world))"

definition closed_creator_socket :: ws where
  "closed_creator_socket = creator_socket\<lparr> readyState := 3 \<rparr>"

section \<open>Invariants\<close>

definition clock_ok :: "clock_state \<Rightarrow> bool" where
  "clock_ok c = (0 \<le> whiteMs c \<and> 0 \<le> blackMs c \<and> 0 \<le> incrementMs c)"

text \<open>
  Budgets that are positive as long as no result is forced, and a non-negative
  increment.
\<close>

definition budget_ok :: "clock_state \<Rightarrow> result_tag option \<Rightarrow> bool" where
  "budget_ok c fr = (0 \<le> incrementMs c \<and> (fr = None \<longrightarrow> 0 < whiteMs c \<and> 0 < blackMs c))"

definition budgets_positive :: "'p room \<Rightarrow> bool" where
  "budgets_positive r = budget_ok (clock r) (forcedResult r)"

text \<open>
  The timer table of a room holds exactly the timer whose handle is in
  \<open>room.forfeit.timer\<close>, for the colour in \<open>room.forfeit.color\<close>.
\<close>

definition timer_table_ok :: "forfeit_state \<Rightarrow> (nat \<times> color) list \<Rightarrow> bool" where
  "timer_table_ok f ts =
     (case timer f of
        None \<Rightarrow> ts = []
      | Some h \<Rightarrow> (\<exists>c. f_color f = Some c \<and> ts = [(h, c)]))"

definition timer_inv :: "'p room \<Rightarrow> bool" where
  "timer_inv r = timer_table_ok (forfeit r) (scheduled r)"





section \<open>Clock decay\<close>

lemma decay_stopped: "\<not> running (clock r) \<or> isFinished E r \<Longrightarrow> applyClockDecay E t r = r"
  by (simp add: applyClockDecay_def)

lemma decay_first:
  "running (clock r) \<Longrightarrow> \<not> isFinished E r
   \<Longrightarrow> lastTickAt (clock r) = None \<or> lastTickAt (clock r) = Some 0
   \<Longrightarrow> applyClockDecay E t r = r\<lparr> clock := (clock r)\<lparr> lastTickAt := Some t \<rparr> \<rparr>"
  by (auto simp add: applyClockDecay_def)

lemma decay_no_time:
  "lastTickAt (clock r) = Some l \<Longrightarrow> l \<noteq> 0 \<Longrightarrow> t \<le> l \<Longrightarrow> applyClockDecay E t r = r"
  by (simp add: applyClockDecay_def)

lemma decay_elapsed:
  assumes "running (clock r)" "\<not> isFinished E r" "lastTickAt (clock r) = Some l" "l \<noteq> 0" "l < t"
  shows "applyClockDecay E t r =
     (let w' = (if currentTurnColor E r = White then max 0 (whiteMs (clock r) - (t - l))
                else whiteMs (clock r));
          b' = (if currentTurnColor E r = White then blackMs (clock r)
                else max 0 (blackMs (clock r) - (t - l)))
      in if w' = 0 \<or> b' = 0
         then r\<lparr> forcedResult := (if b' = 0 then Some white_wins_by_timeout
                                    else Some black_wins_by_timeout),
                 drawOfferBy := None, rematchOffers := {},
                 clock := (clock r)\<lparr> whiteMs := w', blackMs := b', lastTickAt := Some t,
                                       running := False \<rparr> \<rparr>
         else r\<lparr> clock := (clock r)\<lparr> whiteMs := w', blackMs := b', lastTickAt := Some t \<rparr> \<rparr>)"
proof -
  have fr: "forcedResult r = None" using assms(2) by (simp add: isFinished_def)
  show ?thesis
  proof (cases "currentTurnColor E r = White")
    case True
    with assms fr show ?thesis by (simp add: applyClockDecay_def Let_def)
  next
    case False
    with assms fr show ?thesis by (simp add: applyClockDecay_def Let_def)
  qed
qed

lemma decay_frame:
  "chess (applyClockDecay E t r) = chess r"
  "players (applyClockDecay E t r) = players r"
  "clients (applyClockDecay E t r) = clients r"
  "chat (applyClockDecay E t r) = chat r"
  "ai (applyClockDecay E t r) = ai r"
  "forfeit (applyClockDecay E t r) = forfeit r"
  "scheduled (applyClockDecay E t r) = scheduled r"
  "timerSeq (applyClockDecay E t r) = timerSeq r"
  "rid (applyClockDecay E t r) = rid r"
  "createdAt (applyClockDecay E t r) = createdAt r"
  "incrementMs (clock (applyClockDecay E t r)) = incrementMs (clock r)"
  by (simp_all add: applyClockDecay_def Let_def split: option.split)

text \<open>The outcomes of a decay, as a case distinction.\<close>

lemma decay_cases:
  obtains (same) "applyClockDecay E t r = r"
  | (first) "running (clock r)" "\<not> isFinished E r"
      "applyClockDecay E t r = r\<lparr> clock := (clock r)\<lparr> lastTickAt := Some t \<rparr> \<rparr>"
  | (elapsed) l where "running (clock r)" "\<not> isFinished E r" "lastTickAt (clock r) = Some l"
      "l \<noteq> 0" "l < t"
proof (cases "\<not> running (clock r) \<or> isFinished E r")
  case True
  then show ?thesis using same decay_stopped by blast
next
  case nf: False
  show ?thesis
  proof (cases "lastTickAt (clock r)")
    case None
    with nf show ?thesis using first decay_first[of r E t] by simp
  next
    case (Some l)
    show ?thesis
    proof (cases "l = 0")
      case True
      with nf Some show ?thesis using first decay_first[of r E t] by simp
    next
      case l0: False
      show ?thesis
      proof (cases "t \<le> l")
        case True
        with Some l0 show ?thesis using same decay_no_time by blast
      next
        case False
        with nf Some l0 show ?thesis using elapsed[of l] by simp
      qed
    qed
  qed
qed

lemma decay_idem: "applyClockDecay E t (applyClockDecay E t r) = applyClockDecay E t r"
proof (cases rule: decay_cases[of E t r])
  case same
  then show ?thesis by simp
next
  case first
  have "applyClockDecay E t (r\<lparr> clock := (clock r)\<lparr> lastTickAt := Some t \<rparr> \<rparr>)
        = r\<lparr> clock := (clock r)\<lparr> lastTickAt := Some t \<rparr> \<rparr>"
  proof (cases "t = 0")
    case True
    with first(1,2) show ?thesis
      using decay_first[of "r\<lparr> clock := (clock r)\<lparr> lastTickAt := Some t \<rparr> \<rparr>" E t]
      by (simp add: isFinished_def)
  next
    case False
    then show ?thesis
      using decay_no_time[of "r\<lparr> clock := (clock r)\<lparr> lastTickAt := Some t \<rparr> \<rparr>" t t E]
      by simp
  qed
  with first(3) show ?thesis by simp
next
  case (elapsed l)
  let ?r' = "applyClockDecay E t r"
  have lt: "lastTickAt (clock ?r') = Some t"
    using decay_elapsed[OF elapsed] by (simp add: Let_def)
  show ?thesis
  proof (cases "running (clock ?r') \<and> \<not> isFinished E ?r'")
    case False
    then show ?thesis using decay_stopped[of ?r' E t] by blast
  next
    case True
    show ?thesis
    proof (cases "t = 0")
      case True
      have "applyClockDecay E t ?r' = ?r'\<lparr> clock := (clock ?r')\<lparr> lastTickAt := Some t \<rparr> \<rparr>"
        using decay_first[of ?r' E t] \<open>running (clock ?r') \<and> \<not> isFinished E ?r'\<close> lt True by simp
      also have "\<dots> = ?r'" using lt by simp
      finally show ?thesis .
    next
      case False
      then show ?thesis using decay_no_time[of ?r' t t E] lt by simp
    qed
  qed
qed

lemma broadcast_frame:
  "chess (broadcastRoom E t r) = chess r"
  "players (broadcastRoom E t r) = players r"
  "clients (broadcastRoom E t r) = clients r"
  "chat (broadcastRoom E t r) = chat r"
  "ai (broadcastRoom E t r) = ai r"
  "forfeit (broadcastRoom E t r) = forfeit r"
  "scheduled (broadcastRoom E t r) = scheduled r"
  "timerSeq (broadcastRoom E t r) = timerSeq r"
  "rid (broadcastRoom E t r) = rid r"
  "createdAt (broadcastRoom E t r) = createdAt r"
  "incrementMs (clock (broadcastRoom E t r)) = incrementMs (clock r)"
  by (simp_all add: broadcastRoom_def decay_frame)

lemma decay_clock_ok: "clock_ok (clock r) \<Longrightarrow> clock_ok (clock (applyClockDecay E t r))"
proof (cases rule: decay_cases[of E t r])
  case same
  then show "clock_ok (clock r) \<Longrightarrow> ?thesis" by simp
next
  case first
  then show "clock_ok (clock r) \<Longrightarrow> ?thesis" by (simp add: clock_ok_def)
next
  case (elapsed l)
  show "clock_ok (clock r) \<Longrightarrow> ?thesis"
    using decay_elapsed[OF elapsed] by (simp add: clock_ok_def Let_def)
qed

lemma decay_forcedResult_kept:
  "forcedResult r \<noteq> None \<Longrightarrow> applyClockDecay E t r = r"
  by (simp add: decay_stopped isFinished_def)


section \<open>The forfeit timer table\<close>









lemma upd_timer_inv [simp]:
  "timer_inv (r\<lparr> chess := a \<rparr>) = timer_inv r"
  "timer_inv (r\<lparr> players := b \<rparr>) = timer_inv r"
  "timer_inv (r\<lparr> clients := c \<rparr>) = timer_inv r"
  "timer_inv (r\<lparr> forcedResult := d \<rparr>) = timer_inv r"
  "timer_inv (r\<lparr> drawOfferBy := e \<rparr>) = timer_inv r"
  "timer_inv (r\<lparr> rematchOffers := f \<rparr>) = timer_inv r"
  "timer_inv (r\<lparr> clock := g \<rparr>) = timer_inv r"
  "timer_inv (r\<lparr> chat := h \<rparr>) = timer_inv r"
  "timer_inv (r\<lparr> ai := i \<rparr>) = timer_inv r"
  by (simp_all add: timer_inv_def)





























section \<open>Clock budgets stay non-negative\<close>

lemma inc_clock_ok:
  "clock_ok c \<Longrightarrow> clock_ok (c\<lparr> whiteMs := whiteMs c + incrementMs c \<rparr>)"
  "clock_ok c \<Longrightarrow> clock_ok (c\<lparr> blackMs := blackMs c + incrementMs c \<rparr>)"
  "clock_ok c \<Longrightarrow> clock_ok (c\<lparr> running := b \<rparr>)"
  "clock_ok c \<Longrightarrow> clock_ok (c\<lparr> lastTickAt := l \<rparr>)"
  by (simp_all add: clock_ok_def)

lemma broadcast_clock_ok: "clock_ok (clock r) \<Longrightarrow> clock_ok (clock (broadcastRoom E t r))"
  by (simp add: broadcastRoom_def decay_clock_ok)

lemma clear_clock [simp]: "clock (clearForfeitTimer r) = clock r"
  by (simp add: clearForfeitTimer_def)

lemma startClock_clock_ok:
  "clock_ok (clock (startClockIfReady E t r)) = clock_ok (clock r)"
  by (simp add: startClockIfReady_def clock_ok_def)

lemma stopClock_clock_ok: "clock_ok (clock (stopClock r)) = clock_ok (clock r)"
  by (simp add: stopClock_def clock_ok_def)

lemma create_clock_ok:
  "0 \<le> CLOCK_INITIAL_MS cfg \<Longrightarrow> 0 \<le> CLOCK_INCREMENT_MS cfg \<Longrightarrow> clock_ok (createClockState cfg)"
  by (simp add: createClockState_def clock_ok_def)

lemma reset_clock_ok:
  "0 \<le> CLOCK_INITIAL_MS cfg \<Longrightarrow> 0 \<le> CLOCK_INCREMENT_MS cfg
   \<Longrightarrow> clock_ok (clock (resetGameForRematch cfg E t r))"
  by (simp add: resetGameForRematch_def Let_def startClock_clock_ok create_clock_ok)

lemma start_clock_ok:
  "clock_ok (clock r) \<Longrightarrow> clock_ok (clock (maybeStartForfeitTimer cfg E td tb r col))"
  by (simp add: maybeStartForfeitTimer_def Let_def broadcast_clock_ok)

lemma callback_clock_ok:
  "clock_ok (clock r) \<Longrightarrow> clock_ok (clock (forfeitTimerCallback E tb r col))"
  by (simp add: forfeitTimerCallback_def broadcast_clock_ok inc_clock_ok)

lemma fires_clock_ok: "clock_ok (clock r) \<Longrightarrow> clock_ok (clock (timerFires E h tb r))"
  by (simp add: timerFires_def callback_clock_ok split: option.split)

lemma reconnect_clock_ok:
  "clock_ok (clock r) \<Longrightarrow> clock_ok (clock (maybeClearForfeitOnReconnect E tb r col))"
  by (simp add: maybeClearForfeitOnReconnect_def broadcast_clock_ok)

lemma attach_clock_ok:
  "clock_ok (clock r) \<Longrightarrow> clock_ok (clock (attachClientToRoom E tb r w a))"
  by (simp add: attachClientToRoom_def Let_def reconnect_clock_ok addClient_def
      split: option.split)

lemma ai_begin_clock_ok:
  "clock_ok (clock r) \<Longrightarrow> clock_ok (clock (snd (maybeRunAiTurn_begin E tb r)))"
  by (simp add: maybeRunAiTurn_begin_def broadcast_clock_ok)

lemmas clock_ok_intros =
  broadcast_clock_ok decay_clock_ok start_clock_ok callback_clock_ok fires_clock_ok
  reconnect_clock_ok attach_clock_ok ai_begin_clock_ok reset_clock_ok

lemmas clock_ok_simps = startClock_clock_ok stopClock_clock_ok

lemma join_clock_ok:
  "clock_ok (clock r) \<Longrightarrow> clock_ok (clock (snd (join_room E t1 t2 t3 w pl r)))"
  by (simp add: join_room_def Let_def clock_ok_intros clock_ok_simps)

lemma resume_clock_ok:
  "clock_ok (clock r) \<Longrightarrow> clock_ok (clock (snd (resume_room E t1 t2 w pl r)))"
  by (simp add: resume_room_def Let_def clock_ok_intros clock_ok_simps)

lemma set_ai_clock_ok:
  "clock_ok (clock r) \<Longrightarrow> clock_ok (clock (snd (set_ai_level E t1 t2 pl r)))"
  by (simp add: set_ai_level_def Let_def clock_ok_intros clock_ok_simps split: option.split)

lemma make_move_clock_ok:
  "clock_ok (clock r) \<Longrightarrow> clock_ok (clock (snd (make_move cfg E t1 t2 t3 t4 pl r)))"
  by (simp add: make_move_def Let_def clock_ok_intros clock_ok_simps inc_clock_ok
      split: option.split)

lemma ai_resume_clock_ok:
  "clock_ok (clock r) \<Longrightarrow> clock_ok (clock (snd (maybeRunAiTurn_resume E ch t1 t2 t3 r)))"
  by (simp add: maybeRunAiTurn_resume_def Let_def clock_ok_intros clock_ok_simps inc_clock_ok
      split: option.split)

lemma resign_clock_ok:
  "clock_ok (clock r) \<Longrightarrow> clock_ok (clock (snd (resign E t1 pl r)))"
  by (simp add: resign_def Let_def clock_ok_intros inc_clock_ok split: option.split)

lemma offer_draw_clock_ok:
  "clock_ok (clock r) \<Longrightarrow> clock_ok (clock (snd (offer_draw E t1 pl r)))"
  by (simp add: offer_draw_def Let_def clock_ok_intros split: option.split)

lemma accept_draw_clock_ok:
  "clock_ok (clock r) \<Longrightarrow> clock_ok (clock (snd (accept_draw E t1 pl r)))"
  by (simp add: accept_draw_def Let_def clock_ok_intros inc_clock_ok split: option.split)

lemma offer_rematch_clock_ok:
  "0 \<le> CLOCK_INITIAL_MS cfg \<Longrightarrow> 0 \<le> CLOCK_INCREMENT_MS cfg \<Longrightarrow> clock_ok (clock r)
   \<Longrightarrow> clock_ok (clock (snd (offer_rematch cfg E t1 t2 pl r)))"
  by (simp add: offer_rematch_def Let_def clock_ok_intros split: option.split)

lemma escrow_clock_ok: "clock_ok (clock r) \<Longrightarrow> clock_ok (clock (snd (escrow_log pl r)))"
  by (simp add: escrow_log_def split: option.split)

lemma enter_chat_clock_ok:
  "clock_ok (clock r) \<Longrightarrow> clock_ok (clock (snd (enter_chat E t1 pl r)))"
  by (simp add: enter_chat_def Let_def clock_ok_intros split: option.split)

lemma push_clock [simp]: "clock (pushChatMessage f t a u v x r) = clock r"
  by (simp add: pushChatMessage_def Let_def)

lemma send_chat_clock_ok:
  "clock_ok (clock r) \<Longrightarrow> clock_ok (clock (snd (send_chat E f t1 t2 pl r)))"
  by (simp add: send_chat_def Let_def clock_ok_intros split: option.split prod.split)

lemma remove_clock_ok:
  "clock_ok (clock r) \<Longrightarrow> clock_ok (clock (snd (removeClient_room cfg E t1 t2 w r)))"
  by (simp add: removeClient_room_def Let_def clock_ok_intros)

lemma ticker_clock_ok: "clock_ok (clock r) \<Longrightarrow> clock_ok (clock (ticker E t r))"
  by (simp add: ticker_def clock_ok_intros)

lemma reload_clock: "clock (reload cfg E ids t1 t2 r) = clock r"
  by (simp add: reload_def fromSnapshot_def toSnapshot_def split: option.split)

lemma step_clock_ok:
  "0 \<le> CLOCK_INITIAL_MS cfg \<Longrightarrow> 0 \<le> CLOCK_INCREMENT_MS cfg \<Longrightarrow> clock_ok (clock r)
   \<Longrightarrow> clock_ok (clock (step cfg E ev r))"
  by (cases ev)
     (simp_all add: join_clock_ok resume_clock_ok set_ai_clock_ok make_move_clock_ok
       ai_resume_clock_ok resign_clock_ok offer_draw_clock_ok accept_draw_clock_ok
       offer_rematch_clock_ok escrow_clock_ok enter_chat_clock_ok send_chat_clock_ok
       remove_clock_ok ticker_clock_ok reload_clock fires_clock_ok setReadyState_def)

lemma run_clock_ok:
  "0 \<le> CLOCK_INITIAL_MS cfg \<Longrightarrow> 0 \<le> CLOCK_INCREMENT_MS cfg \<Longrightarrow> clock_ok (clock r)
   \<Longrightarrow> clock_ok (clock (run cfg E r evs))"
  by (induction evs arbitrary: r) (simp_all add: step_clock_ok)

lemmas eval_defs =
  newRoom_def join_room_def resume_room_def make_move_def resolvePlayer_def getPlayerColor_def
  toLowerCase_def lower_char_def by_addr_def no_payload_def e2e4_def socket_def
  startClockIfReady_def isFinished_def currentTurnColor_def demo_engine_def
  createClockState_def createChatState_def createAiState_def noForfeit_def
  attachClientToRoom_def addClient_def clients_add_def maybeClearForfeitOnReconnect_def
  broadcastRoom_def applyClockDecay_def isPlayerOnline_def getConnectedCount_def
  isAiAddress_def startsWith_def clearForfeitTimer_def maybeRunAiTurn_begin_def
  maybeStartForfeitTimer_def forfeitTimerDue_def ticker_def Let_def

text \<open>
  C9, as amended. In every room reached from \<open>create_room\<close> by any sequence of events,
  under a configuration whose initial budget and whose increment are both
  non-negative, \<open>clock.whiteMs\<close> and \<open>clock.blackMs\<close> are non-negative; and for every
  room, a second clock decay at the same time stamp changes nothing.
\<close>

theorem clock_budgets_non_negative:
  assumes "0 \<le> CLOCK_INITIAL_MS cfg" and "0 \<le> CLOCK_INCREMENT_MS cfg"
  shows "0 \<le> whiteMs (clock (run cfg E (newRoom cfg E i now a) evs))
         \<and> 0 \<le> blackMs (clock (run cfg E (newRoom cfg E i now a) evs))
         \<and> applyClockDecay E t (applyClockDecay E t r) = applyClockDecay E t r"
proof -
  have "clock_ok (clock (newRoom cfg E i now a))"
    using assms by (simp add: newRoom_def create_clock_ok)
  then have "clock_ok (clock (run cfg E (newRoom cfg E i now a) evs))"
    using assms by (simp add: run_clock_ok)
  then show ?thesis by (simp add: clock_ok_def decay_idem)
qed

text \<open>
  The theorem at work: white creates a room, black joins at time 1000, white plays
  at time 1500.
\<close>

theorem clock_budgets_non_negative_witness:
  "0 \<le> CLOCK_INITIAL_MS demo_config \<and> 0 \<le> CLOCK_INCREMENT_MS demo_config
   \<and> 0 \<le> whiteMs (clock (run demo_config demo_engine
              (newRoom demo_config demo_engine ''r1'' 900 ''0xa'')
              [Join_room 1000 1000 1000 (socket 2) (by_addr ''0xb''),
               Make_move 1500 1500 1500 1500 (e2e4 ''0xa'')]))
   \<and> 0 \<le> blackMs (clock (run demo_config demo_engine
              (newRoom demo_config demo_engine ''r1'' 900 ''0xa'')
              [Join_room 1000 1000 1000 (socket 2) (by_addr ''0xb''),
               Make_move 1500 1500 1500 1500 (e2e4 ''0xa'')]))
   \<and> applyClockDecay demo_engine 2000 (applyClockDecay demo_engine 2000 room_in_play)
       = applyClockDecay demo_engine 2000 room_in_play"
proof -
  have c: "0 \<le> CLOCK_INITIAL_MS demo_config" "0 \<le> CLOCK_INCREMENT_MS demo_config"
    by (simp_all add: demo_config_def)
  show ?thesis
    using c clock_budgets_non_negative [OF c, of demo_engine "''r1''" 900 "''0xa''"
        "[Join_room 1000 1000 1000 (socket 2) (by_addr ''0xb''),
          Make_move 1500 1500 1500 1500 (e2e4 ''0xa'')]" 2000 room_in_play]
    by simp
qed

text \<open>
  C9 as stated fails: with an initial budget of 1000 ms and an increment of -2000 ms
  (both accepted by \<open>Number(process.env...)\<close>), white's move at 1500 leaves white
  with -1500 ms.
\<close>

theorem negative_increment_counterexample:
  "0 \<le> CLOCK_INITIAL_MS negative_increment_config
   \<and> whiteMs (clock (run negative_increment_config demo_engine
         (newRoom negative_increment_config demo_engine ''r1'' 900 ''0xa'')
         [Join_room 1000 1000 1000 (socket 2) (by_addr ''0xb''),
          Make_move 1500 1500 1500 1500 (e2e4 ''0xa'')])) = - 1500"
  by (simp add: eval_defs negative_increment_config_def)

section \<open>The forced result is written once\<close>

lemma clear_forcedResult [simp]: "forcedResult (clearForfeitTimer r) = forcedResult r"
  by (simp add: clearForfeitTimer_def)

lemma clear_chess [simp]: "chess (clearForfeitTimer r) = chess r"
  by (simp add: clearForfeitTimer_def)

lemma startClock_forcedResult [simp]:
  "forcedResult (startClockIfReady E t r) = forcedResult r"
  by (simp add: startClockIfReady_def)

lemma stopClock_forcedResult [simp]: "forcedResult (stopClock r) = forcedResult r"
  by (simp add: stopClock_def)

lemma stopClock_chess [simp]: "chess (stopClock r) = chess r"
  by (simp add: stopClock_def)

lemma addClient_forcedResult [simp]: "forcedResult (addClient r w a) = forcedResult r"
  by (simp add: addClient_def)

lemma push_forcedResult [simp]: "forcedResult (pushChatMessage f t a u v x r) = forcedResult r"
  by (simp add: pushChatMessage_def Let_def)

lemma broadcast_fr:
  "forcedResult r \<noteq> None \<Longrightarrow> forcedResult (broadcastRoom E t r) = forcedResult r"
  by (simp add: broadcastRoom_def decay_forcedResult_kept)

lemma start_fr:
  "forcedResult r \<noteq> None
   \<Longrightarrow> forcedResult (maybeStartForfeitTimer cfg E td tb r col) = forcedResult r"
  by (simp add: maybeStartForfeitTimer_def forfeitTimerDue_def isFinished_def)

lemma callback_fr:
  "forcedResult r \<noteq> None \<Longrightarrow> forcedResult (forfeitTimerCallback E tb r col) = forcedResult r"
  by (simp add: forfeitTimerCallback_def isFinished_def broadcast_fr)

lemma fires_fr:
  "forcedResult r \<noteq> None \<Longrightarrow> forcedResult (timerFires E h tb r) = forcedResult r"
  by (simp add: timerFires_def callback_fr split: option.split)

lemma reconnect_fr:
  "forcedResult r \<noteq> None
   \<Longrightarrow> forcedResult (maybeClearForfeitOnReconnect E tb r col) = forcedResult r"
  by (simp add: maybeClearForfeitOnReconnect_def broadcast_fr)

lemma attach_fr:
  "forcedResult r \<noteq> None \<Longrightarrow> forcedResult (attachClientToRoom E tb r w a) = forcedResult r"
  by (simp add: attachClientToRoom_def Let_def reconnect_fr split: option.split)

lemma ai_begin_fr:
  "forcedResult r \<noteq> None \<Longrightarrow> forcedResult (snd (maybeRunAiTurn_begin E tb r)) = forcedResult r"
  by (simp add: maybeRunAiTurn_begin_def isFinished_def)

lemmas fr_simps = broadcast_fr start_fr callback_fr fires_fr reconnect_fr attach_fr ai_begin_fr

lemma join_fr:
  "forcedResult r \<noteq> None \<Longrightarrow> forcedResult (snd (join_room E t1 t2 t3 w pl r)) = forcedResult r"
  by (simp add: join_room_def Let_def fr_simps)

lemma resume_fr:
  "forcedResult r \<noteq> None \<Longrightarrow> forcedResult (snd (resume_room E t1 t2 w pl r)) = forcedResult r"
  by (simp add: resume_room_def Let_def fr_simps)

lemma set_ai_fr:
  "forcedResult r \<noteq> None \<Longrightarrow> forcedResult (snd (set_ai_level E t1 t2 pl r)) = forcedResult r"
  by (simp add: set_ai_level_def Let_def fr_simps split: option.split)

lemma make_move_fr:
  "forcedResult r \<noteq> None
   \<Longrightarrow> forcedResult (snd (make_move cfg E t1 t2 t3 t4 pl r)) = forcedResult r"
  by (simp add: make_move_def isFinished_def split: option.split)

lemma ai_resume_fr:
  "forcedResult r \<noteq> None
   \<Longrightarrow> forcedResult (snd (maybeRunAiTurn_resume E ch t1 t2 t3 r)) = forcedResult r"
  by (simp add: maybeRunAiTurn_resume_def Let_def decay_forcedResult_kept isFinished_def)

lemma resign_fr:
  "forcedResult r \<noteq> None \<Longrightarrow> forcedResult (snd (resign E t1 pl r)) = forcedResult r"
  by (simp add: resign_def isFinished_def split: option.split)

lemma offer_draw_fr:
  "forcedResult r \<noteq> None \<Longrightarrow> forcedResult (snd (offer_draw E t1 pl r)) = forcedResult r"
  by (simp add: offer_draw_def isFinished_def split: option.split)

lemma accept_draw_fr:
  "forcedResult r \<noteq> None \<Longrightarrow> forcedResult (snd (accept_draw E t1 pl r)) = forcedResult r"
  by (simp add: accept_draw_def isFinished_def split: option.split)

lemma escrow_fr: "forcedResult (snd (escrow_log pl r)) = forcedResult r"
  by (simp add: escrow_log_def split: option.split)

lemma enter_chat_fr:
  "forcedResult r \<noteq> None \<Longrightarrow> forcedResult (snd (enter_chat E t1 pl r)) = forcedResult r"
  by (simp add: enter_chat_def Let_def fr_simps split: option.split)

lemma send_chat_fr:
  "forcedResult r \<noteq> None \<Longrightarrow> forcedResult (snd (send_chat E f t1 t2 pl r)) = forcedResult r"
  by (simp add: send_chat_def Let_def fr_simps split: option.split prod.split)

lemma remove_fr:
  "forcedResult r \<noteq> None
   \<Longrightarrow> forcedResult (snd (removeClient_room cfg E t1 t2 w r)) = forcedResult r"
  by (simp add: removeClient_room_def Let_def fr_simps)

lemma ticker_fr: "forcedResult r \<noteq> None \<Longrightarrow> forcedResult (ticker E t r) = forcedResult r"
  by (simp add: ticker_def fr_simps)

lemma reload_fr: "forcedResult (reload cfg E ids t1 t2 r) = forcedResult r"
  by (simp add: reload_def fromSnapshot_def toSnapshot_def split: option.split)

lemma color_UNIV: "(UNIV :: color set) = {White, Black}"
proof -
  have "x \<in> {White, Black}" for x :: color by (cases x) simp_all
  then show ?thesis by blast
qed

lemma card_two_colors: "card (S :: color set) = 2 \<longleftrightarrow> S = UNIV"
proof
  assume c: "card S = 2"
  have "finite (UNIV :: color set)" by (simp add: color_UNIV)
  moreover have "card (UNIV :: color set) = 2" by (simp add: color_UNIV)
  ultimately show "S = UNIV" using c by (metis card_subset_eq subset_UNIV)
next
  assume "S = UNIV"
  then show "card S = 2" by (simp add: color_UNIV)
qed

lemma reset_forcedResult [simp]: "forcedResult (resetGameForRematch cfg E t r) = None"
  by (simp add: resetGameForRematch_def Let_def)

lemma offer_rematch_fr:
  assumes "forcedResult r \<noteq> None"
  shows "forcedResult (snd (offer_rematch cfg E t1 t2 pl r)) = forcedResult r
         \<or> (\<exists>a col. resolvePlayer r pl = Some (a, col) \<and> insert col (rematchOffers r) = UNIV
               \<and> snd (offer_rematch cfg E t1 t2 pl r)
                   = broadcastRoom E t2
                       (resetGameForRematch cfg E t1 (r\<lparr> rematchOffers := UNIV \<rparr>)))"
proof (cases "resolvePlayer r pl")
  case None
  then show ?thesis by (simp add: offer_rematch_def)
next
  case (Some ac)
  obtain a col where ac: "ac = (a, col)" by (cases ac)
  have fin: "isFinished E r" using assms by (simp add: isFinished_def)
  show ?thesis
  proof (cases "insert col (rematchOffers r) = UNIV")
    case True
    with Some ac fin show ?thesis
      by (simp add: offer_rematch_def Let_def card_two_colors)
  next
    case False
    with Some ac fin assms show ?thesis
      by (simp add: offer_rematch_def Let_def card_two_colors broadcast_fr)
  qed
qed

text \<open>
  C4. Once \<open>forcedResult\<close> is set, no event changes it, except an \<open>offer_rematch\<close>
  that completes the pair of offers: that one runs \<open>resetGameForRematch\<close>, which sets
  it to \<open>null\<close>, and then broadcasts the new game.
\<close>

theorem forcedResult_changed_only_by_rematch_reset:
  assumes "forcedResult r \<noteq> None"
  shows "forcedResult (step cfg E ev r) = forcedResult r
         \<or> (\<exists>t1 t2 pl a col.
               ev = Offer_rematch t1 t2 pl
               \<and> resolvePlayer r pl = Some (a, col)
               \<and> insert col (rematchOffers r) = UNIV
               \<and> step cfg E ev r
                   = broadcastRoom E t2
                       (resetGameForRematch cfg E t1 (r\<lparr> rematchOffers := UNIV \<rparr>))
               \<and> forcedResult (resetGameForRematch cfg E t1 (r\<lparr> rematchOffers := UNIV \<rparr>))
                   = None)"
proof (cases ev)
  case (Offer_rematch t1 t2 pl)
  then show ?thesis using offer_rematch_fr[OF assms, of cfg E t1 t2 pl] by auto
qed (simp_all add: assms join_fr resume_fr set_ai_fr make_move_fr ai_resume_fr resign_fr
      offer_draw_fr accept_draw_fr escrow_fr enter_chat_fr send_chat_fr remove_fr ticker_fr
      reload_fr fires_fr setReadyState_def)

text \<open>The theorem on the room in which white resigned: black cannot resign it again.\<close>

theorem forcedResult_changed_only_by_rematch_reset_witness:
  "forcedResult room_resigned \<noteq> None
   \<and> forcedResult (step demo_config demo_engine (Resign 5000 (by_addr ''0xb'')) room_resigned)
       = forcedResult room_resigned"
proof -
  have h: "forcedResult room_resigned \<noteq> None" by (simp add: room_resigned_def)
  show ?thesis
    using h forcedResult_changed_only_by_rematch_reset [OF h, of demo_config demo_engine
        "Resign 5000 (by_addr ''0xb'')"]
    by simp
qed

section \<open>Timeout by decay\<close>

text \<open>
  When a decay brings the remaining time of the side to move to zero and the other
  side's remaining time is not zero, the opponent wins by timeout, the clock stops
  and the offers are cleared.
\<close>

lemma decay_flag_opponent_has_time:
  assumes "running (clock r)" "\<not> isFinished E r" "lastTickAt (clock r) = Some l" "l \<noteq> 0"
    and "l < t"
    and "currentTurnColor E r = White \<Longrightarrow> whiteMs (clock r) \<le> t - l \<and> blackMs (clock r) \<noteq> 0"
    and "currentTurnColor E r = Black \<Longrightarrow> blackMs (clock r) \<le> t - l \<and> whiteMs (clock r) \<noteq> 0"
  shows "forcedResult (applyClockDecay E t r)
           = Some (if currentTurnColor E r = White then black_wins_by_timeout
                   else white_wins_by_timeout)
         \<and> \<not> running (clock (applyClockDecay E t r))
         \<and> drawOfferBy (applyClockDecay E t r) = None
         \<and> rematchOffers (applyClockDecay E t r) = {}"
proof (cases "currentTurnColor E r")
  case White
  with assms(6) have "max 0 (whiteMs (clock r) - (t - l)) = 0" "blackMs (clock r) \<noteq> 0"
    by simp_all
  then show ?thesis using decay_elapsed[OF assms(1-5)] White by (simp add: Let_def)
next
  case Black
  with assms(7) have "max 0 (blackMs (clock r) - (t - l)) = 0" "whiteMs (clock r) \<noteq> 0"
    by simp_all
  then show ?thesis using decay_elapsed[OF assms(1-5)] Black by (simp add: Let_def)
qed

text \<open>
  In every room reached under a positive initial budget and a non-negative
  increment, both budgets are positive while no result is forced, so there the tag
  is the opponent's whenever a decay brings the mover's time to zero.
\<close>

lemma budget_ok_upd:
  "budget_ok c fr \<Longrightarrow> budget_ok (c\<lparr> running := b \<rparr>) fr"
  "budget_ok c fr \<Longrightarrow> budget_ok (c\<lparr> lastTickAt := l \<rparr>) fr"
  "budget_ok c fr \<Longrightarrow> budget_ok (c\<lparr> whiteMs := whiteMs c + incrementMs c \<rparr>) fr"
  "budget_ok c fr \<Longrightarrow> budget_ok (c\<lparr> blackMs := blackMs c + incrementMs c \<rparr>) fr"
  "budget_ok c fr \<Longrightarrow> budget_ok c (Some x)"
  by (auto simp add: budget_ok_def)

lemma decay_budgets_positive:
  "budget_ok (clock r) (forcedResult r)
   \<Longrightarrow> budget_ok (clock (applyClockDecay E t r)) (forcedResult (applyClockDecay E t r))"
proof (cases rule: decay_cases[of E t r])
  case same
  then show "budget_ok (clock r) (forcedResult r) \<Longrightarrow> ?thesis" by simp
next
  case first
  then show "budget_ok (clock r) (forcedResult r) \<Longrightarrow> ?thesis" by (simp add: budget_ok_def)
next
  case (elapsed l)
  show "budget_ok (clock r) (forcedResult r) \<Longrightarrow> ?thesis"
    using decay_elapsed[OF elapsed]
    by (auto simp add: budget_ok_def Let_def split: if_splits)
qed

lemma broadcast_budgets_positive:
  "budget_ok (clock r) (forcedResult r)
   \<Longrightarrow> budget_ok (clock (broadcastRoom E t r)) (forcedResult (broadcastRoom E t r))"
  by (simp add: broadcastRoom_def decay_budgets_positive)

lemma startClock_budgets_positive:
  "budget_ok (clock r) fr \<Longrightarrow> budget_ok (clock (startClockIfReady E t r)) fr"
  by (simp add: startClockIfReady_def budget_ok_upd)

lemma stopClock_budgets_positive:
  "budget_ok (clock r) fr \<Longrightarrow> budget_ok (clock (stopClock r)) fr"
  by (simp add: stopClock_def budget_ok_upd)

lemma reset_budgets_positive:
  "0 < CLOCK_INITIAL_MS cfg \<Longrightarrow> 0 \<le> CLOCK_INCREMENT_MS cfg
   \<Longrightarrow> budget_ok (clock (resetGameForRematch cfg E t r)) None"
  by (simp add: resetGameForRematch_def Let_def startClockIfReady_def)
     (simp add: budget_ok_def createClockState_def)

lemma start_budgets_positive:
  "budget_ok (clock r) (forcedResult r)
   \<Longrightarrow> budget_ok (clock (maybeStartForfeitTimer cfg E td tb r col))
         (forcedResult (maybeStartForfeitTimer cfg E td tb r col))"
  by (simp add: maybeStartForfeitTimer_def Let_def broadcast_budgets_positive)

lemma callback_budgets_positive:
  "budget_ok (clock r) (forcedResult r)
   \<Longrightarrow> budget_ok (clock (forfeitTimerCallback E tb r col))
         (forcedResult (forfeitTimerCallback E tb r col))"
  by (simp add: forfeitTimerCallback_def broadcast_budgets_positive budget_ok_upd)

lemma fires_budgets_positive:
  "budget_ok (clock r) (forcedResult r)
   \<Longrightarrow> budget_ok (clock (timerFires E h tb r)) (forcedResult (timerFires E h tb r))"
  by (simp add: timerFires_def callback_budgets_positive split: option.split)

lemma reconnect_budgets_positive:
  "budget_ok (clock r) (forcedResult r)
   \<Longrightarrow> budget_ok (clock (maybeClearForfeitOnReconnect E tb r col))
         (forcedResult (maybeClearForfeitOnReconnect E tb r col))"
  by (simp add: maybeClearForfeitOnReconnect_def broadcast_budgets_positive)

lemma attach_budgets_positive:
  "budget_ok (clock r) (forcedResult r)
   \<Longrightarrow> budget_ok (clock (attachClientToRoom E tb r w a))
         (forcedResult (attachClientToRoom E tb r w a))"
  by (simp add: attachClientToRoom_def Let_def reconnect_budgets_positive addClient_def
      split: option.split)

lemma ai_begin_budgets_positive:
  "budget_ok (clock r) (forcedResult r)
   \<Longrightarrow> budget_ok (clock (snd (maybeRunAiTurn_begin E tb r)))
         (forcedResult (snd (maybeRunAiTurn_begin E tb r)))"
  by (simp add: maybeRunAiTurn_begin_def broadcast_budgets_positive)

lemmas budgets_positive_intros =
  broadcast_budgets_positive decay_budgets_positive start_budgets_positive
  callback_budgets_positive fires_budgets_positive reconnect_budgets_positive
  attach_budgets_positive ai_begin_budgets_positive reset_budgets_positive
  startClock_budgets_positive stopClock_budgets_positive budget_ok_upd

lemma join_budgets_positive:
  "budgets_positive r \<Longrightarrow> budgets_positive (snd (join_room E t1 t2 t3 w pl r))"
  by (simp add: budgets_positive_def join_room_def Let_def budgets_positive_intros)

lemma resume_budgets_positive:
  "budgets_positive r \<Longrightarrow> budgets_positive (snd (resume_room E t1 t2 w pl r))"
  by (simp add: budgets_positive_def resume_room_def Let_def budgets_positive_intros)

lemma set_ai_budgets_positive:
  "budgets_positive r \<Longrightarrow> budgets_positive (snd (set_ai_level E t1 t2 pl r))"
  by (simp add: budgets_positive_def set_ai_level_def Let_def budgets_positive_intros
      split: option.split)

lemma make_move_budgets_positive:
  "budgets_positive r \<Longrightarrow> budgets_positive (snd (make_move cfg E t1 t2 t3 t4 pl r))"
  by (simp add: budgets_positive_def make_move_def Let_def budgets_positive_intros
      split: option.split)

lemma ai_resume_budgets_positive:
  "budgets_positive r \<Longrightarrow> budgets_positive (snd (maybeRunAiTurn_resume E ch t1 t2 t3 r))"
  by (simp add: budgets_positive_def maybeRunAiTurn_resume_def Let_def
      budgets_positive_intros split: option.split)

lemma resign_budgets_positive:
  "budgets_positive r \<Longrightarrow> budgets_positive (snd (resign E t1 pl r))"
  by (simp add: budgets_positive_def resign_def Let_def budgets_positive_intros
      split: option.split)

lemma offer_draw_budgets_positive:
  "budgets_positive r \<Longrightarrow> budgets_positive (snd (offer_draw E t1 pl r))"
  by (simp add: budgets_positive_def offer_draw_def Let_def budgets_positive_intros
      split: option.split)

lemma accept_draw_budgets_positive:
  "budgets_positive r \<Longrightarrow> budgets_positive (snd (accept_draw E t1 pl r))"
  by (simp add: budgets_positive_def accept_draw_def Let_def budgets_positive_intros
      split: option.split)

lemma offer_rematch_budgets_positive:
  "0 < CLOCK_INITIAL_MS cfg \<Longrightarrow> 0 \<le> CLOCK_INCREMENT_MS cfg \<Longrightarrow> budgets_positive r
   \<Longrightarrow> budgets_positive (snd (offer_rematch cfg E t1 t2 pl r))"
  by (simp add: budgets_positive_def offer_rematch_def Let_def budgets_positive_intros
      split: option.split)

lemma escrow_budgets_positive:
  "budgets_positive r \<Longrightarrow> budgets_positive (snd (escrow_log pl r))"
  by (simp add: escrow_log_def split: option.split)

lemma enter_chat_budgets_positive:
  "budgets_positive r \<Longrightarrow> budgets_positive (snd (enter_chat E t1 pl r))"
  by (simp add: budgets_positive_def enter_chat_def Let_def budgets_positive_intros
      split: option.split)

lemma send_chat_budgets_positive:
  "budgets_positive r \<Longrightarrow> budgets_positive (snd (send_chat E f t1 t2 pl r))"
  by (simp add: budgets_positive_def send_chat_def Let_def budgets_positive_intros
      split: option.split prod.split)

lemma remove_budgets_positive:
  "budgets_positive r \<Longrightarrow> budgets_positive (snd (removeClient_room cfg E t1 t2 w r))"
  by (simp add: budgets_positive_def removeClient_room_def Let_def budgets_positive_intros)

lemma ticker_budgets_positive: "budgets_positive r \<Longrightarrow> budgets_positive (ticker E t r)"
  by (simp add: budgets_positive_def ticker_def budgets_positive_intros)

lemma reload_budgets_positive:
  "budgets_positive r \<Longrightarrow> budgets_positive (reload cfg E ids t1 t2 r)"
  by (simp add: budgets_positive_def reload_def fromSnapshot_def toSnapshot_def
      split: option.split)

lemma step_budgets_positive:
  "0 < CLOCK_INITIAL_MS cfg \<Longrightarrow> 0 \<le> CLOCK_INCREMENT_MS cfg \<Longrightarrow> budgets_positive r
   \<Longrightarrow> budgets_positive (step cfg E ev r)"
proof (cases ev)
  case (Timer_fires h tb)
  then show "budgets_positive r \<Longrightarrow> ?thesis"
    by (simp add: budgets_positive_def fires_budgets_positive)
next
  case (Socket_moves_away i)
  then show "budgets_positive r \<Longrightarrow> ?thesis" by (simp add: budgets_positive_def)
next
  case (Socket_state i n)
  then show "budgets_positive r \<Longrightarrow> ?thesis"
    by (simp add: budgets_positive_def setReadyState_def)
qed (simp_all add: join_budgets_positive resume_budgets_positive set_ai_budgets_positive
       make_move_budgets_positive ai_resume_budgets_positive resign_budgets_positive
       offer_draw_budgets_positive accept_draw_budgets_positive
       offer_rematch_budgets_positive escrow_budgets_positive enter_chat_budgets_positive
       send_chat_budgets_positive remove_budgets_positive ticker_budgets_positive
       reload_budgets_positive)

lemma run_budgets_positive:
  "0 < CLOCK_INITIAL_MS cfg \<Longrightarrow> 0 \<le> CLOCK_INCREMENT_MS cfg \<Longrightarrow> budgets_positive r
   \<Longrightarrow> budgets_positive (run cfg E r evs)"
  by (induction evs arbitrary: r) (simp_all add: step_budgets_positive)

lemma timeout_tag_for_positive_budget:
  assumes cfg: "0 < CLOCK_INITIAL_MS cfg" "0 \<le> CLOCK_INCREMENT_MS cfg"
    and R: "R = run cfg E (newRoom cfg E i now a) evs"
    and run: "running (clock R)" "\<not> isFinished E R" "lastTickAt (clock R) = Some l" "l \<noteq> 0"
      "l < t"
    and zero: "(if currentTurnColor E R = White then whiteMs (clock R) else blackMs (clock R))
                 \<le> t - l"
  shows "forcedResult (applyClockDecay E t R)
           = Some (if currentTurnColor E R = White then black_wins_by_timeout
                   else white_wins_by_timeout)
         \<and> \<not> running (clock (applyClockDecay E t R))
         \<and> drawOfferBy (applyClockDecay E t R) = None
         \<and> rematchOffers (applyClockDecay E t R) = {}"
proof -
  have "budgets_positive (newRoom cfg E i now a)"
    using cfg by (simp add: newRoom_def budgets_positive_def budget_ok_def createClockState_def)
  then have "budgets_positive R" using cfg R by (simp add: run_budgets_positive)
  moreover have "forcedResult R = None" using run(2) by (simp add: isFinished_def)
  ultimately have pos: "0 < whiteMs (clock R)" "0 < blackMs (clock R)"
    by (simp_all add: budgets_positive_def budget_ok_def)
  have w: "currentTurnColor E R = White
           \<Longrightarrow> whiteMs (clock R) \<le> t - l \<and> blackMs (clock R) \<noteq> 0"
    using zero pos by simp
  have b: "currentTurnColor E R = Black
           \<Longrightarrow> blackMs (clock R) \<le> t - l \<and> whiteMs (clock R) \<noteq> 0"
    using zero pos by simp
  show ?thesis by (rule decay_flag_opponent_has_time[OF run w b])
qed


section \<open>At most one forfeit timer, cancelled by reconnection\<close>





lemma addClient_getPlayerColor [simp]:
  "getPlayerColor (addClient r w a) x = getPlayerColor r x"
  by (simp add: getPlayerColor_def addClient_def)







section \<open>Moves\<close>

lemma resolvePlayer_promotion [simp]:
  "resolvePlayer r (pl\<lparr> p_promotion := x \<rparr>) = resolvePlayer r pl"
  by (simp add: resolvePlayer_def)

lemma start_chess [simp]: "chess (maybeStartForfeitTimer cfg E td tb r col) = chess r"
  by (simp add: maybeStartForfeitTimer_def Let_def broadcast_frame)

lemma ai_begin_chess [simp]: "chess (snd (maybeRunAiTurn_begin E tb r)) = chess r"
  by (simp add: maybeRunAiTurn_begin_def broadcast_frame)

lemma decay_unfinished_frame:
  assumes "\<not> isFinished E (applyClockDecay E t r)"
  shows "forcedResult (applyClockDecay E t r) = forcedResult r"
    and "drawOfferBy (applyClockDecay E t r) = drawOfferBy r"
    and "rematchOffers (applyClockDecay E t r) = rematchOffers r"
    and "running (clock (applyClockDecay E t r)) = running (clock r)"
proof -
  have n: "forcedResult (applyClockDecay E t r) = None"
    using assms by (simp add: isFinished_def)
  have "forcedResult (applyClockDecay E t r) = forcedResult r
        \<and> drawOfferBy (applyClockDecay E t r) = drawOfferBy r
        \<and> rematchOffers (applyClockDecay E t r) = rematchOffers r
        \<and> running (clock (applyClockDecay E t r)) = running (clock r)"
  proof (cases rule: decay_cases[of E t r])
    case same
    then show ?thesis by simp
  next
    case first
    then show ?thesis by simp
  next
    case (elapsed l)
    have nf: "forcedResult r = None" using elapsed(2) by (simp add: isFinished_def)
    let ?w = "if currentTurnColor E r = White then max 0 (whiteMs (clock r) - (t - l))
              else whiteMs (clock r)"
    let ?b = "if currentTurnColor E r = White then blackMs (clock r)
              else max 0 (blackMs (clock r) - (t - l))"
    show ?thesis
    proof (cases "?w = 0 \<or> ?b = 0")
      case True
      then have "forcedResult (applyClockDecay E t r) \<noteq> None"
        using decay_elapsed[OF elapsed] by (simp add: Let_def)
      with n show ?thesis by simp
    next
      case False
      then show ?thesis using nf decay_elapsed[OF elapsed] by (simp add: Let_def)
    qed
  qed
  then show "forcedResult (applyClockDecay E t r) = forcedResult r"
    and "drawOfferBy (applyClockDecay E t r) = drawOfferBy r"
    and "rematchOffers (applyClockDecay E t r) = rematchOffers r"
    and "running (clock (applyClockDecay E t r)) = running (clock r)"
    by simp_all
qed

text \<open>The ways out of \<open>make_move\<close>.\<close>

lemma make_move_unseated:
  "resolvePlayer r pl = None \<Longrightarrow> make_move cfg E t1 t2 t3 t4 pl r = (Rejected Invalid_player, r)"
  by (simp add: make_move_def)

lemma make_move_over:
  "resolvePlayer r pl = Some (a, col) \<Longrightarrow> isFinished E r
   \<Longrightarrow> make_move cfg E t1 t2 t3 t4 pl r = (Rejected Game_already_over, r)"
  by (simp add: make_move_def)

lemma make_move_turn:
  "resolvePlayer r pl = Some (a, col) \<Longrightarrow> \<not> isFinished E r \<Longrightarrow> currentTurnColor E r \<noteq> col
   \<Longrightarrow> make_move cfg E t1 t2 t3 t4 pl r = (Rejected Not_your_turn, r)"
  by (simp add: make_move_def)

lemma make_move_flag:
  "resolvePlayer r pl = Some (a, col) \<Longrightarrow> \<not> isFinished E r \<Longrightarrow> currentTurnColor E r = col
   \<Longrightarrow> isFinished E (applyClockDecay E t1 r)
   \<Longrightarrow> make_move cfg E t1 t2 t3 t4 pl r
       = (Flag_fell, broadcastRoom E t2 (applyClockDecay E t1 r))"
  by (simp add: make_move_def)

lemma make_move_illegal:
  "resolvePlayer r pl = Some (a, col) \<Longrightarrow> \<not> isFinished E r \<Longrightarrow> currentTurnColor E r = col
   \<Longrightarrow> \<not> isFinished E (applyClockDecay E t1 r)
   \<Longrightarrow> chess_move E (chess r) (p_from pl) (p_to pl) Queen = None
   \<Longrightarrow> make_move cfg E t1 t2 t3 t4 pl r = (Rejected Illegal_move, applyClockDecay E t1 r)"
  by (simp add: make_move_def decay_frame)

lemma make_move_legal:
  "resolvePlayer r pl = Some (a, col) \<Longrightarrow> \<not> isFinished E r \<Longrightarrow> currentTurnColor E r = col
   \<Longrightarrow> \<not> isFinished E (applyClockDecay E t1 r)
   \<Longrightarrow> chess_move E (chess r) (p_from pl) (p_to pl) Queen = Some p'
   \<Longrightarrow> fst (make_move cfg E t1 t2 t3 t4 pl r) = Accepted
       \<and> chess (snd (make_move cfg E t1 t2 t3 t4 pl r)) = p'"
  by (simp add: make_move_def decay_frame Let_def broadcast_frame)

lemma make_move_outcomes:
  "fst (make_move cfg E t1 t2 t3 t4 pl r) \<in>
     {Rejected Invalid_player, Rejected Game_already_over, Rejected Not_your_turn,
      Rejected Illegal_move, Flag_fell, Accepted}"
  by (simp add: make_move_def Let_def split: option.split)

text \<open>
  C10. \<open>make_move\<close> does not read a promotion choice of the payload: the outcome and
  the room are the same whatever \<open>p_promotion\<close> holds, and the position after an
  accepted move is the one the rules engine returns for the payload's from and to
  with promotion to a queen.
\<close>

theorem make_move_promotion_always_queen:
  "make_move cfg E t1 t2 t3 t4 (pl\<lparr> p_promotion := x \<rparr>) r = make_move cfg E t1 t2 t3 t4 pl r
   \<and> (fst (make_move cfg E t1 t2 t3 t4 pl r) = Accepted
        \<longrightarrow> chess_move E (chess r) (p_from pl) (p_to pl) Queen
            = Some (chess (snd (make_move cfg E t1 t2 t3 t4 pl r))))"
proof
  show "make_move cfg E t1 t2 t3 t4 (pl\<lparr> p_promotion := x \<rparr>) r
        = make_move cfg E t1 t2 t3 t4 pl r"
    by (simp add: make_move_def Let_def cong: option.case_cong prod.case_cong if_cong)
next
  show "fst (make_move cfg E t1 t2 t3 t4 pl r) = Accepted
        \<longrightarrow> chess_move E (chess r) (p_from pl) (p_to pl) Queen
            = Some (chess (snd (make_move cfg E t1 t2 t3 t4 pl r)))"
  proof (cases "resolvePlayer r pl")
    case None
    then show ?thesis by (simp add: make_move_unseated)
  next
    case (Some ac)
    obtain a col where ac: "resolvePlayer r pl = Some (a, col)" using Some by (cases ac) simp
    show ?thesis
    proof (cases "isFinished E r")
      case True
      then show ?thesis using make_move_over[OF ac] by simp
    next
      case nf: False
      show ?thesis
      proof (cases "currentTurnColor E r = col")
        case False
        then show ?thesis using make_move_turn[OF ac nf] by simp
      next
        case tu: True
        show ?thesis
        proof (cases "isFinished E (applyClockDecay E t1 r)")
          case True
          then show ?thesis using make_move_flag[OF ac nf tu] by simp
        next
          case nd: False
          show ?thesis
          proof (cases "chess_move E (chess r) (p_from pl) (p_to pl) Queen")
            case None
            then show ?thesis using make_move_illegal[OF ac nf tu nd] by simp
          next
            case (Some p')
            then show ?thesis using make_move_legal[OF ac nf tu nd] by simp
          qed
        qed
      qed
    qed
  qed
qed

text \<open>The theorem on white's first move, sent with a request to promote to a knight.\<close>

theorem make_move_promotion_always_queen_witness:
  "fst (make_move demo_config demo_engine 2000 2000 2000 2000
          ((e2e4 ''0xa'')\<lparr> p_promotion := Some ''n'' \<rparr>) room_in_play) = Accepted
   \<and> make_move demo_config demo_engine 2000 2000 2000 2000
          ((e2e4 ''0xa'')\<lparr> p_promotion := Some ''n'' \<rparr>) room_in_play
       = make_move demo_config demo_engine 2000 2000 2000 2000 (e2e4 ''0xa'') room_in_play
   \<and> chess_move demo_engine (chess room_in_play) ''e2'' ''e4'' Queen
       = Some (chess (snd (make_move demo_config demo_engine 2000 2000 2000 2000
                             ((e2e4 ''0xa'')\<lparr> p_promotion := Some ''n'' \<rparr>) room_in_play)))"
proof -
  have h: "fst (make_move demo_config demo_engine 2000 2000 2000 2000
                  ((e2e4 ''0xa'')\<lparr> p_promotion := Some ''n'' \<rparr>) room_in_play) = Accepted"
    by (simp add: eval_defs room_in_play_def)
  show ?thesis
    using h
      make_move_promotion_always_queen [where cfg = demo_config and E = demo_engine
        and ?t1.0 = 2000 and ?t2.0 = 2000 and ?t3.0 = 2000 and ?t4.0 = 2000
        and pl = "e2e4 ''0xa''" and x = "Some ''n''" and r = room_in_play]
    by (simp add: e2e4_def by_addr_def no_payload_def)
qed

text \<open>
  C1, as amended. A move is accepted exactly when the acting address is seated as
  the side to move, the game is unfinished before and after the clock decay that
  the command performs at its own time, and the rules engine accepts from and to
  (with promotion to a queen). A command rejected for an unseated actor, a finished
  game or a wrong turn leaves the whole room unchanged. A command rejected as an
  illegal move leaves the room as that clock decay leaves it: position, draw offer,
  rematch offers, forced result, the running flag and the increment are unchanged.
\<close>

theorem make_move_accepted_iff:
  "(fst (make_move cfg E t1 t2 t3 t4 pl r) = Accepted
      \<longleftrightarrow> (\<exists>a. resolvePlayer r pl = Some (a, currentTurnColor E r))
          \<and> \<not> isFinished E r
          \<and> \<not> isFinished E (applyClockDecay E t1 r)
          \<and> chess_move E (chess r) (p_from pl) (p_to pl) Queen \<noteq> None)
   \<and> (fst (make_move cfg E t1 t2 t3 t4 pl r) = Rejected Invalid_player
        \<or> fst (make_move cfg E t1 t2 t3 t4 pl r) = Rejected Game_already_over
        \<or> fst (make_move cfg E t1 t2 t3 t4 pl r) = Rejected Not_your_turn
       \<longrightarrow> snd (make_move cfg E t1 t2 t3 t4 pl r) = r)
   \<and> (fst (make_move cfg E t1 t2 t3 t4 pl r) = Rejected Illegal_move
       \<longrightarrow> snd (make_move cfg E t1 t2 t3 t4 pl r) = applyClockDecay E t1 r
           \<and> chess (snd (make_move cfg E t1 t2 t3 t4 pl r)) = chess r
           \<and> drawOfferBy (snd (make_move cfg E t1 t2 t3 t4 pl r)) = drawOfferBy r
           \<and> rematchOffers (snd (make_move cfg E t1 t2 t3 t4 pl r)) = rematchOffers r
           \<and> forcedResult (snd (make_move cfg E t1 t2 t3 t4 pl r)) = forcedResult r
           \<and> running (clock (snd (make_move cfg E t1 t2 t3 t4 pl r))) = running (clock r)
           \<and> incrementMs (clock (snd (make_move cfg E t1 t2 t3 t4 pl r)))
               = incrementMs (clock r))"
proof (cases "resolvePlayer r pl")
  case None
  then show ?thesis by (simp add: make_move_unseated)
next
  case (Some ac)
  obtain a col where ac: "resolvePlayer r pl = Some (a, col)" using Some by (cases ac) simp
  show ?thesis
  proof (cases "isFinished E r")
    case True
    then show ?thesis using make_move_over[OF ac] by simp
  next
    case nf: False
    show ?thesis
    proof (cases "currentTurnColor E r = col")
      case False
      then show ?thesis using make_move_turn[OF ac nf] ac by auto
    next
      case tu: True
      show ?thesis
      proof (cases "isFinished E (applyClockDecay E t1 r)")
        case True
        then show ?thesis using make_move_flag[OF ac nf tu] by simp
      next
        case nd: False
        show ?thesis
        proof (cases "chess_move E (chess r) (p_from pl) (p_to pl) Queen")
          case None
          then show ?thesis
            using make_move_illegal[OF ac nf tu nd] decay_unfinished_frame[OF nd]
            by (simp add: decay_frame)
        next
          case (Some p')
          then show ?thesis using make_move_legal[OF ac nf tu nd] ac tu nf nd by auto
        qed
      qed
    qed
  qed
qed

text \<open>
  The theorem on the room in play at time 2000: black's attempt out of turn, and
  white's attempt to move from e2 to e2.
\<close>

theorem make_move_accepted_iff_witness:
  "fst (make_move demo_config demo_engine 2000 2000 2000 2000 (e2e2 ''0xa'') room_in_play)
     = Rejected Illegal_move
   \<and> fst (make_move demo_config demo_engine 2000 2000 2000 2000 (e2e4 ''0xb'') room_in_play)
     = Rejected Not_your_turn
   \<and> snd (make_move demo_config demo_engine 2000 2000 2000 2000 (e2e4 ''0xb'') room_in_play)
     = room_in_play
   \<and> snd (make_move demo_config demo_engine 2000 2000 2000 2000 (e2e2 ''0xa'') room_in_play)
     = applyClockDecay demo_engine 2000 room_in_play
   \<and> chess (snd (make_move demo_config demo_engine 2000 2000 2000 2000 (e2e2 ''0xa'')
                    room_in_play)) = chess room_in_play
   \<and> drawOfferBy (snd (make_move demo_config demo_engine 2000 2000 2000 2000 (e2e2 ''0xa'')
                    room_in_play)) = drawOfferBy room_in_play
   \<and> rematchOffers (snd (make_move demo_config demo_engine 2000 2000 2000 2000 (e2e2 ''0xa'')
                    room_in_play)) = rematchOffers room_in_play"
proof -
  have h1: "fst (make_move demo_config demo_engine 2000 2000 2000 2000 (e2e2 ''0xa'')
                   room_in_play) = Rejected Illegal_move"
    by (simp add: eval_defs room_in_play_def e2e2_def)
  have h2: "fst (make_move demo_config demo_engine 2000 2000 2000 2000 (e2e4 ''0xb'')
                   room_in_play) = Rejected Not_your_turn"
    by (simp add: eval_defs room_in_play_def)
  have a: "snd (make_move demo_config demo_engine 2000 2000 2000 2000 (e2e4 ''0xb'')
                  room_in_play) = room_in_play"
    using h2 make_move_accepted_iff [of demo_config demo_engine 2000 2000 2000 2000
        "e2e4 ''0xb''" room_in_play]
    by blast
  show ?thesis
    using h1 h2 a
      make_move_accepted_iff [of demo_config demo_engine 2000 2000 2000 2000 "e2e2 ''0xa''"
        room_in_play]
    by blast
qed

text \<open>
  C1 as stated fails. White's illegal move at time 2000 is rejected, and white's
  remaining time and \<open>lastTickAt\<close> have changed. And with half a second left, white's
  move at time 2000 is not accepted although white is to move, the game is
  unfinished when the command arrives and the rules engine accepts the move: the
  decay of the command ends the game.
\<close>

theorem make_move_rejection_changes_clock_counterexample:
  "currentTurnColor demo_engine room_in_play = White
   \<and> resolvePlayer room_in_play (e2e2 ''0xa'') = Some (''0xa'', White)
   \<and> \<not> isFinished demo_engine room_in_play
   \<and> fst (make_move demo_config demo_engine 2000 2000 2000 2000 (e2e2 ''0xa'') room_in_play)
       = Rejected Illegal_move
   \<and> whiteMs (clock room_in_play) = 300000
   \<and> whiteMs (clock (snd (make_move demo_config demo_engine 2000 2000 2000 2000
                             (e2e2 ''0xa'') room_in_play))) = 299000
   \<and> lastTickAt (clock room_in_play) = Some 1000
   \<and> lastTickAt (clock (snd (make_move demo_config demo_engine 2000 2000 2000 2000
                                (e2e2 ''0xa'') room_in_play))) = Some 2000
   \<and> currentTurnColor demo_engine room_low_time = White
   \<and> resolvePlayer room_low_time (e2e4 ''0xa'') = Some (''0xa'', White)
   \<and> \<not> isFinished demo_engine room_low_time
   \<and> chess_move demo_engine (chess room_low_time) ''e2'' ''e4'' Queen \<noteq> None
   \<and> fst (make_move demo_config demo_engine 2000 2000 2000 2000 (e2e4 ''0xa'') room_low_time)
       = Flag_fell
   \<and> chess (snd (make_move demo_config demo_engine 2000 2000 2000 2000 (e2e4 ''0xa'')
                    room_low_time)) = chess room_low_time
   \<and> forcedResult (snd (make_move demo_config demo_engine 2000 2000 2000 2000 (e2e4 ''0xa'')
                           room_low_time)) = Some black_wins_by_timeout"
  by (simp add: eval_defs room_in_play_def room_low_time_def e2e2_def)

section \<open>Rematch\<close>

lemma decay_same_tick: "lastTickAt (clock r) = Some t \<Longrightarrow> applyClockDecay E t r = r"
proof (cases rule: decay_cases[of E t r])
  case same
  then show ?thesis by simp
next
  case first
  assume "lastTickAt (clock r) = Some t"
  then have "r\<lparr> clock := (clock r)\<lparr> lastTickAt := Some t \<rparr> \<rparr> = r" by simp
  with first(3) show ?thesis by simp
next
  case (elapsed l)
  assume "lastTickAt (clock r) = Some t"
  with elapsed(3,5) show ?thesis by simp
qed

lemma decay_offers_cleared:
  "drawOfferBy r = None \<Longrightarrow> drawOfferBy (applyClockDecay E t r) = None"
  "rematchOffers r = {} \<Longrightarrow> rematchOffers (applyClockDecay E t r) = {}"
proof -
  show "drawOfferBy r = None \<Longrightarrow> drawOfferBy (applyClockDecay E t r) = None"
  proof (cases rule: decay_cases[of E t r])
    case same
    then show "drawOfferBy r = None \<Longrightarrow> ?thesis" by simp
  next
    case first
    then show "drawOfferBy r = None \<Longrightarrow> ?thesis" by simp
  next
    case (elapsed l)
    show "drawOfferBy r = None \<Longrightarrow> ?thesis"
      using decay_elapsed[OF elapsed] by (simp add: Let_def)
  qed
  show "rematchOffers r = {} \<Longrightarrow> rematchOffers (applyClockDecay E t r) = {}"
  proof (cases rule: decay_cases[of E t r])
    case same
    then show "rematchOffers r = {} \<Longrightarrow> ?thesis" by simp
  next
    case first
    then show "rematchOffers r = {} \<Longrightarrow> ?thesis" by simp
  next
    case (elapsed l)
    show "rematchOffers r = {} \<Longrightarrow> ?thesis"
      using decay_elapsed[OF elapsed] by (simp add: Let_def)
  qed
qed

lemma reset_fields:
  "chess (resetGameForRematch cfg E t r) = chess_new E"
  "drawOfferBy (resetGameForRematch cfg E t r) = None"
  "rematchOffers (resetGameForRematch cfg E t r) = {}"
  "whiteMs (clock (resetGameForRematch cfg E t r)) = CLOCK_INITIAL_MS cfg"
  "blackMs (clock (resetGameForRematch cfg E t r)) = CLOCK_INITIAL_MS cfg"
  "incrementMs (clock (resetGameForRematch cfg E t r)) = CLOCK_INCREMENT_MS cfg"
  "lastTickAt (clock (resetGameForRematch cfg E t r)) = None
   \<or> lastTickAt (clock (resetGameForRematch cfg E t r)) = Some t"
  "running (clock (resetGameForRematch cfg E t r))
     = (lastTickAt (clock (resetGameForRematch cfg E t r)) = Some t)"
  "enabled (ai r) \<and> truthy (botAddress (ai r))
   \<Longrightarrow> black (players (resetGameForRematch cfg E t r)) = botAddress (ai r)"
  by (simp_all add: resetGameForRematch_def Let_def startClockIfReady_def createClockState_def)

lemma reset_then_broadcast_same_time:
  "broadcastRoom E t (resetGameForRematch cfg E t r) = resetGameForRematch cfg E t r"
proof (cases "lastTickAt (clock (resetGameForRematch cfg E t r)) = Some t")
  case True
  then show ?thesis by (simp add: broadcastRoom_def decay_same_tick)
next
  case False
  then have "\<not> running (clock (resetGameForRematch cfg E t r))"
    by (simp add: reset_fields(8))
  then show ?thesis by (simp add: broadcastRoom_def decay_stopped)
qed

text \<open>
  C8. In a finished room, \<open>offer_rematch\<close> by a seated colour is accepted, and the
  game is reset exactly when both colours have offered once this offer is recorded.
  The reset gives the starting position, no draw offer, no rematch offers, no forced
  result, both budgets at the configured initial value, the black seat of an
  engine-enabled room set to the engine's address; the broadcast that follows only
  decays the new clock (not at all when no time passed since the reset). After a
  single colour's offer the offer is recorded, and position, clock and forced
  result are unchanged and the room is still finished.
\<close>

theorem offer_rematch_resets_iff_both_offered:
  assumes fin: "isFinished E r" and res: "resolvePlayer r pl = Some (a, col)"
  shows "fst (offer_rematch cfg E t1 t2 pl r) = Accepted
    \<and> (rematchOffers (snd (offer_rematch cfg E t1 t2 pl r)) = {}
         \<longleftrightarrow> insert col (rematchOffers r) = UNIV)
    \<and> (insert col (rematchOffers r) = UNIV \<longrightarrow>
          snd (offer_rematch cfg E t1 t2 pl r)
            = broadcastRoom E t2 (resetGameForRematch cfg E t1 (r\<lparr> rematchOffers := UNIV \<rparr>))
          \<and> chess (snd (offer_rematch cfg E t1 t2 pl r)) = chess_new E
          \<and> drawOfferBy (snd (offer_rematch cfg E t1 t2 pl r)) = None
          \<and> rematchOffers (snd (offer_rematch cfg E t1 t2 pl r)) = {}
          \<and> forcedResult (resetGameForRematch cfg E t1 (r\<lparr> rematchOffers := UNIV \<rparr>)) = None
          \<and> whiteMs (clock (resetGameForRematch cfg E t1 (r\<lparr> rematchOffers := UNIV \<rparr>)))
              = CLOCK_INITIAL_MS cfg
          \<and> blackMs (clock (resetGameForRematch cfg E t1 (r\<lparr> rematchOffers := UNIV \<rparr>)))
              = CLOCK_INITIAL_MS cfg
          \<and> incrementMs (clock (snd (offer_rematch cfg E t1 t2 pl r)))
              = CLOCK_INCREMENT_MS cfg
          \<and> (enabled (ai r) \<and> truthy (botAddress (ai r))
               \<longrightarrow> black (players (snd (offer_rematch cfg E t1 t2 pl r))) = botAddress (ai r))
          \<and> (t2 = t1 \<longrightarrow> snd (offer_rematch cfg E t1 t2 pl r)
                = resetGameForRematch cfg E t1 (r\<lparr> rematchOffers := UNIV \<rparr>)))
    \<and> (insert col (rematchOffers r) \<noteq> UNIV \<longrightarrow>
          rematchOffers (snd (offer_rematch cfg E t1 t2 pl r)) = insert col (rematchOffers r)
          \<and> chess (snd (offer_rematch cfg E t1 t2 pl r)) = chess r
          \<and> clock (snd (offer_rematch cfg E t1 t2 pl r)) = clock r
          \<and> forcedResult (snd (offer_rematch cfg E t1 t2 pl r)) = forcedResult r
          \<and> isFinished E (snd (offer_rematch cfg E t1 t2 pl r)))"
proof (cases "insert col (rematchOffers r) = UNIV")
  case True
  let ?reset = "resetGameForRematch cfg E t1 (r\<lparr> rematchOffers := UNIV \<rparr>)"
  have eq: "offer_rematch cfg E t1 t2 pl r = (Accepted, broadcastRoom E t2 ?reset)"
    using fin res True by (simp add: offer_rematch_def Let_def card_two_colors)
  let ?R = "snd (offer_rematch cfg E t1 t2 pl r)"
  have R: "?R = broadcastRoom E t2 ?reset" by (simp add: eq)
  have c1: "chess ?R = chess_new E" by (simp add: R broadcast_frame reset_fields)
  have c2: "drawOfferBy ?R = None"
    by (simp add: R broadcastRoom_def decay_offers_cleared reset_fields)
  have c3: "rematchOffers ?R = {}"
    by (simp add: R broadcastRoom_def decay_offers_cleared reset_fields)
  have c4: "incrementMs (clock ?R) = CLOCK_INCREMENT_MS cfg"
    by (simp add: R broadcast_frame reset_fields)
  have c5: "enabled (ai r) \<and> truthy (botAddress (ai r))
            \<longrightarrow> black (players ?R) = botAddress (ai r)"
    by (simp add: R broadcast_frame reset_fields)
  have c6: "t2 = t1 \<longrightarrow> ?R = ?reset"
  proof
    assume "t2 = t1"
    then have "broadcastRoom E t2 ?reset = ?reset"
      by (simp add: reset_then_broadcast_same_time)
    with R show "?R = ?reset" by simp
  qed
  have c7: "forcedResult ?reset = None" "whiteMs (clock ?reset) = CLOCK_INITIAL_MS cfg"
    "blackMs (clock ?reset) = CLOCK_INITIAL_MS cfg"
    by (simp_all add: reset_fields)
  have c0: "fst (offer_rematch cfg E t1 t2 pl r) = Accepted" by (simp add: eq)
  show ?thesis using True c0 R c1 c2 c3 c4 c5 c6 c7 by blast
next
  case False
  have fin': "isFinished E (r\<lparr> rematchOffers := insert col (rematchOffers r) \<rparr>)"
    using fin by (simp add: isFinished_def)
  have eq: "offer_rematch cfg E t1 t2 pl r
            = (Accepted, r\<lparr> rematchOffers := insert col (rematchOffers r) \<rparr>)"
    using fin res False fin'
    by (simp add: offer_rematch_def Let_def card_two_colors broadcastRoom_def decay_stopped)
  show ?thesis using False fin' by (simp add: eq)
qed

text \<open>
  The theorem on two finished rooms: the game against the engine in which black has
  offered already, and the resigned game in which nobody has; white offers at time
  5000.
\<close>

theorem offer_rematch_resets_iff_both_offered_witness:
  "isFinished demo_engine room_ai_finished
   \<and> resolvePlayer room_ai_finished (by_addr ''0xa'') = Some (''0xa'', White)
   \<and> insert White (rematchOffers room_ai_finished) = UNIV
   \<and> enabled (ai room_ai_finished) \<and> truthy (botAddress (ai room_ai_finished))
   \<and> isFinished demo_engine room_resigned
   \<and> resolvePlayer room_resigned (by_addr ''0xa'') = Some (''0xa'', White)
   \<and> insert White (rematchOffers room_resigned) \<noteq> UNIV
   \<and> chess (snd (offer_rematch demo_config demo_engine 5000 5000 (by_addr ''0xa'')
                    room_ai_finished)) = chess_new demo_engine
   \<and> rematchOffers (snd (offer_rematch demo_config demo_engine 5000 5000 (by_addr ''0xa'')
                            room_ai_finished)) = {}
   \<and> black (players (snd (offer_rematch demo_config demo_engine 5000 5000 (by_addr ''0xa'')
                             room_ai_finished))) = botAddress (ai room_ai_finished)
   \<and> snd (offer_rematch demo_config demo_engine 5000 5000 (by_addr ''0xa'') room_ai_finished)
       = resetGameForRematch demo_config demo_engine 5000
           (room_ai_finished\<lparr> rematchOffers := UNIV \<rparr>)
   \<and> clock (snd (offer_rematch demo_config demo_engine 5000 5000 (by_addr ''0xa'')
                    room_resigned)) = clock room_resigned
   \<and> forcedResult (snd (offer_rematch demo_config demo_engine 5000 5000 (by_addr ''0xa'')
                           room_resigned)) = forcedResult room_resigned
   \<and> isFinished demo_engine (snd (offer_rematch demo_config demo_engine 5000 5000
                                     (by_addr ''0xa'') room_resigned))"
proof -
  have f1: "isFinished demo_engine room_ai_finished"
    by (simp add: room_ai_finished_def room_resigned_def isFinished_def)
  have p1: "resolvePlayer room_ai_finished (by_addr ''0xa'') = Some (''0xa'', White)"
    by (simp add: room_ai_finished_def eval_defs)
  have b1: "insert White (rematchOffers room_ai_finished) = UNIV"
    by (simp add: room_ai_finished_def color_UNIV)
  have a1: "enabled (ai room_ai_finished) \<and> truthy (botAddress (ai room_ai_finished))"
    by (simp add: room_ai_finished_def)
  have f2: "isFinished demo_engine room_resigned"
    by (simp add: room_resigned_def isFinished_def)
  have p2: "resolvePlayer room_resigned (by_addr ''0xa'') = Some (''0xa'', White)"
    by (simp add: room_resigned_def room_in_play_def eval_defs)
  have b2: "insert White (rematchOffers room_resigned) \<noteq> UNIV"
    by (simp add: room_resigned_def room_in_play_def color_UNIV)
  show ?thesis
    using f1 p1 b1 a1 f2 p2 b2
      offer_rematch_resets_iff_both_offered [OF f1 p1, of demo_config 5000 5000]
      offer_rematch_resets_iff_both_offered [OF f2 p2, of demo_config 5000 5000]
    by blast
qed

section \<open>Chat\<close>

text \<open>
  C3 does not hold of \<open>send_chat\<close>. For a seated sender without a roster entry whose
  text is empty after trimming or longer than 280 characters, the command is
  rejected and the message log is unchanged, but the roster has gained an entry for
  the sender: the room is not the one before the command.
\<close>

theorem send_chat_rejection_writes_roster:
  assumes "resolvePlayer r pl = Some (a, col)" and "members (chat r) a = None"
    and "trim (or_empty (p_text pl)) = [] \<or> length (trim (or_empty (p_text pl))) > 280"
  shows "fst (send_chat E fresh t1 t2 pl r) = Rejected Chat_message_must_be_1_280
         \<and> members (chat (snd (send_chat E fresh t1 t2 pl r))) a \<noteq> None
         \<and> messages (chat (snd (send_chat E fresh t1 t2 pl r))) = messages (chat r)
         \<and> snd (send_chat E fresh t1 t2 pl r) \<noteq> r"
proof -
  let ?m1 = "normalizeChatMember
               (Some \<lparr> username = (if truthy (p_username pl) then or_empty (p_username pl)
                                    else fallbackName a),
                       avatar = or_empty (p_avatar pl) \<rparr>) a"
  let ?m2 = "case ?m1 of Some m \<Rightarrow> m
             | None \<Rightarrow> \<lparr> username = fallbackName a, avatar = identicon a \<rparr>"
  let ?r1 = "r\<lparr> chat := (chat r)\<lparr> members := (members (chat r))(a \<mapsto> ?m2) \<rparr> \<rparr>"
  have eq: "send_chat E fresh t1 t2 pl r = (Rejected Chat_message_must_be_1_280, ?r1)"
    using assms by (auto simp add: send_chat_def Let_def normalizeChatMember_def)
  have "members (chat ?r1) a \<noteq> members (chat r) a" using assms(2) by simp
  then have ne: "?r1 \<noteq> r" by metis
  show ?thesis using ne by (simp add: eq)
qed

text \<open>
  The theorem in the room in play: white, who never entered the chat, sends a
  message without text.
\<close>

theorem send_chat_rejection_writes_roster_witness:
  "resolvePlayer room_in_play (by_addr ''0xa'') = Some (''0xa'', White)
   \<and> members (chat room_in_play) ''0xa'' = None
   \<and> trim (or_empty (p_text (by_addr ''0xa''))) = []
   \<and> fst (send_chat demo_engine ''m1'' 3000 3000 (by_addr ''0xa'') room_in_play)
       = Rejected Chat_message_must_be_1_280
   \<and> members (chat (snd (send_chat demo_engine ''m1'' 3000 3000 (by_addr ''0xa'')
                             room_in_play))) ''0xa'' \<noteq> None
   \<and> snd (send_chat demo_engine ''m1'' 3000 3000 (by_addr ''0xa'') room_in_play)
       \<noteq> room_in_play"
proof -
  have h1: "resolvePlayer room_in_play (by_addr ''0xa'') = Some (''0xa'', White)"
    by (simp add: room_in_play_def eval_defs)
  have h2: "members (chat room_in_play) ''0xa'' = None"
    by (simp add: room_in_play_def createChatState_def)
  have h3: "trim (or_empty (p_text (by_addr ''0xa''))) = []"
    by (simp add: by_addr_def no_payload_def trim_def)
  have h3': "trim (or_empty (p_text (by_addr ''0xa''))) = []
             \<or> length (trim (or_empty (p_text (by_addr ''0xa'')))) > 280"
    using h3 by simp
  show ?thesis
    using h1 h2 h3
      send_chat_rejection_writes_roster [OF h1 h2 h3', of demo_engine "''m1''" 3000 3000]
    by blast
qed

section \<open>Snapshot round trip\<close>












section \<open>Detaching the last socket of an unstarted room\<close>

text \<open>
  C2 does not hold of \<open>removeClient\<close>. When the closing socket carries the address of
  the seated white player (not an engine address), the black seat is empty, no move
  was played, the game is not finished and no other socket is attached, the room
  stays in the registry (with an empty client set) and the store is not touched:
  \<open>removeClient\<close> returns after \<open>maybeStartForfeitTimer\<close>, before the test for an empty
  unstarted room.
\<close>

theorem removeClient_keeps_unstarted_room:
  assumes w: "roomId w = Some k" "k \<noteq> []"
    and reg: "activeRooms W k = Some r"
    and seat: "white (players r) = playerAddress w" "truthy (playerAddress w)"
      "\<not> isAiAddress (playerAddress w)"
    and unstarted: "\<not> truthy (black (players r))" "chess_history_length E (chess r) = 0"
      "\<not> isFinished E r"
    and last: "clients_delete (ws_id w) (clients r) = []"
  shows "activeRooms (removeClient cfg E ids t0 t1 t2 ts w W) k
           = Some (r\<lparr> clients := [] \<rparr>)
         \<and> gameStore (removeClient cfg E ids t0 t1 t2 ts w W) = gameStore W"
proof -
  let ?r1 = "r\<lparr> clients := [] \<rparr>"
  have ld: "loadRoom cfg E ids t0 k W = Some (k, W)"
    using reg by (simp add: loadRoom_def)
  have col: "getPlayerColor ?r1 (playerAddress w) = Some White"
    using seat by (simp add: getPlayerColor_def)
  have nf: "\<not> isFinished E ?r1" using unstarted(3) by (simp add: isFinished_def)
  have off: "\<not> isPlayerOnline ?r1 White"
    using seat by (simp add: isPlayerOnline_def getConnectedCount_def)
  have nd: "\<not> forfeitTimerDue E ?r1 White"
    using unstarted(1) by (simp add: forfeitTimerDue_def)
  have rc: "removeClient_room cfg E t1 t2 w r = (Kept, ?r1)"
    using last col nf off nd
    by (simp add: removeClient_room_def Let_def maybeStartForfeitTimer_def)
  show ?thesis
    using w ld reg last col nf off nd rc
    by (simp add: removeClient_def Let_def)
qed

text \<open>
  The theorem on the room that \<open>0xa\<close> has just created on socket 1, when that socket
  closes: room and snapshot are still there.
\<close>

lemma creator_socket_eval:
  "closed_creator_socket =
     \<lparr> ws_id = 1, roomId = Some ''r1'', playerAddress = Some ''0xa'', readyState = 3 \<rparr>"
  by (simp add: closed_creator_socket_def creator_socket_def create_room_def eval_defs)

lemma world_created_room:
  "activeRooms world_created ''r1'' =
     Some \<lparr> rid = ''r1'', chess = 0, players = \<lparr> white = Some ''0xa'', black = None \<rparr>,
            clients = [\<lparr> ws_id = 1, roomId = Some ''r1'', playerAddress = Some ''0xa'',
                         readyState = 1 \<rparr>],
            forcedResult = None, drawOfferBy = None, rematchOffers = {},
            clock = \<lparr> whiteMs = 300000, blackMs = 300000, incrementMs = 2000,
                      running = False, lastTickAt = None \<rparr>,
            chat = createChatState, ai = createAiState, createdAt = 900,
            forfeit = noForfeit, scheduled = [], timerSeq = 0 \<rparr>"
  by (simp add: world_created_def create_room_def eval_defs saveRoom_def toSnapshot_def
      empty_world_def demo_config_def)

lemma world_created_store: "gameStore world_created ''r1'' \<noteq> None"
  by (simp add: world_created_def create_room_def eval_defs saveRoom_def toSnapshot_def
      empty_world_def demo_config_def)

theorem removeClient_keeps_unstarted_room_witness:
  "roomId closed_creator_socket = Some ''r1''
   \<and> playerAddress closed_creator_socket = Some ''0xa''
   \<and> activeRooms world_created ''r1'' \<noteq> None
   \<and> gameStore world_created ''r1'' \<noteq> None
   \<and> white (players (the (activeRooms world_created ''r1''))) = Some ''0xa''
   \<and> black (players (the (activeRooms world_created ''r1''))) = None
   \<and> chess_history_length demo_engine (chess (the (activeRooms world_created ''r1''))) = 0
   \<and> clients_delete (ws_id closed_creator_socket)
        (clients (the (activeRooms world_created ''r1''))) = []
   \<and> activeRooms (removeClient demo_config demo_engine fresh_ids 9000 9000 9000 9000
                     closed_creator_socket world_created) ''r1'' \<noteq> None
   \<and> gameStore (removeClient demo_config demo_engine fresh_ids 9000 9000 9000 9000
                   closed_creator_socket world_created) ''r1'' \<noteq> None"
proof -
  let ?r = "the (activeRooms world_created ''r1'')"
  have w: "roomId closed_creator_socket = Some ''r1''" "''r1'' \<noteq> []"
    "playerAddress closed_creator_socket = Some ''0xa''"
    by (simp_all add: creator_socket_eval)
  have reg: "activeRooms world_created ''r1'' = Some ?r"
    by (simp add: world_created_room)
  have st: "white (players ?r) = playerAddress closed_creator_socket"
    "truthy (playerAddress closed_creator_socket)"
    "\<not> isAiAddress (playerAddress closed_creator_socket)"
    by (simp_all add: world_created_room creator_socket_eval isAiAddress_def startsWith_def)
  have un: "\<not> truthy (black (players ?r))"
    "chess_history_length demo_engine (chess ?r) = 0"
    "\<not> isFinished demo_engine ?r"
    by (simp_all add: world_created_room isFinished_def demo_engine_def)
  have la: "clients_delete (ws_id closed_creator_socket) (clients ?r) = []"
    by (simp add: world_created_room creator_socket_eval clients_delete_def)
  have b: "black (players ?r) = None" by (simp add: world_created_room)
  have s0: "gameStore world_created ''r1'' \<noteq> None" by (rule world_created_store)
  have reg0: "activeRooms world_created ''r1'' \<noteq> None" by (simp add: world_created_room)
  show ?thesis
    using w st un la b s0 reg0
      removeClient_keeps_unstarted_room [OF w(1,2) reg st un la, of demo_config fresh_ids
        9000 9000 9000 9000]
    by simp
qed

end
